theory Spec2Isabelle
  imports Main "HOL-Library.Word" "HOL-Library.Monad_Syntax"
begin

unbundle bit_operations_syntax

section \<open>JavaScript values, errors, events\<close>

type_synonym byte = "8 word"

text \<open>
  The \<open>Error\<close> objects the connection creates. The message constants of
  \<open>ErrorMessages\<close> are kept by name; \<open>ServerError c m\<close> is
  \<open>new Error(errorCode + ':' + errorMsg)\<close> for a number and a string, and
  \<open>ErrorMessage m\<close> is \<open>new Error(m)\<close> for any other text.
\<close>

datatype js_error =
    ERROR_CONNECTION_ALREADY_PENDING
  | ERROR_QUERY_ALREADY_PENDING
  | ERROR_INPUT_VALIDATION
  | ERROR_NO_ACTIVE_QUERY
  | ServerError int "string option"
  | ErrorMessage string

datatype jsval = Undefined | Null | Boolean bool | Num int | Str string | Err js_error

text \<open>The event names set in the constructor of \<open>CUBRIDConnection\<close>.\<close>

datatype event =
    EVENT_ERROR
  | EVENT_CONNECTED
  | EVENT_ENGINE_VERSION_AVAILABLE
  | EVENT_BATCH_COMMANDS_COMPLETED
  | EVENT_QUERY_DATA_AVAILABLE
  | EVENT_FETCH_DATA_AVAILABLE
  | EVENT_FETCH_NO_MORE_DATA_AVAILABLE
  | EVENT_BEGIN_TRANSACTION
  | EVENT_SET_AUTOCOMMIT_MODE_COMPLETED
  | EVENT_COMMIT_COMPLETED
  | EVENT_ROLLBACK_COMPLETED
  | EVENT_QUERY_CLOSED
  | EVENT_CONNECTION_CLOSED

text \<open>
  What a caller can observe of a session besides the socket: the events emitted and the
  invocations of the completion callback it passed, each with its arguments, in order.
\<close>

datatype obs = Emit event "jsval list" | Callback "jsval list"

text \<open>\<open>typeof err != 'undefined' && err != null\<close>\<close>

definition is_err :: "jsval \<Rightarrow> bool" where
  "is_err v = (v \<noteq> Undefined \<and> v \<noteq> Null)"

text \<open>The \<open>i\<close>-th actual argument of a call; a missing argument is \<open>undefined\<close>.\<close>

definition arg :: "nat \<Rightarrow> jsval list \<Rightarrow> jsval" where
  "arg i args = (if i < length args then args ! i else Undefined)"




section \<open>Frame codec\<close>

text \<open>
  Modelled from the spec: \<open>constants/DataTypes\<close> is not among the sources. The
  sizes are those of the frame layout: a 4-byte length, a 4-byte CAS info, 32-bit
  integers, single bytes, and eight bytes of broker info.
\<close>

definition DATA_LENGTH_SIZEOF :: int where "DATA_LENGTH_SIZEOF = 4"
definition CAS_INFO_SIZE :: int where "CAS_INFO_SIZE = 4"
definition BYTE_SIZEOF :: int where "BYTE_SIZEOF = 1"
definition INT_SIZEOF :: int where "INT_SIZEOF = 4"
definition BROKER_INFO_SIZEOF :: int where "BROKER_INFO_SIZEOF = 8"

text \<open>Big-endian layout of a 32-bit value.\<close>

definition int32_bytes :: "int \<Rightarrow> byte list" where
  "int32_bytes v = (let w = (word_of_int v :: 32 word) in
     [ucast (drop_bit 24 w), ucast (drop_bit 16 w), ucast (drop_bit 8 w), ucast w])"

definition be32 :: "byte \<Rightarrow> byte \<Rightarrow> byte \<Rightarrow> byte \<Rightarrow> 32 word" where
  "be32 a b c d =
     push_bit 24 (ucast a) OR push_bit 16 (ucast b) OR push_bit 8 (ucast c) OR ucast d"

text \<open>
  Modelled from the spec: \<open>packets/PacketWriter\<close> is not among the sources. The
  writer accumulates into a growable byte buffer and offers: a signed 32-bit big-endian
  int, a single byte, a fixed-length padded string (truncated or padded to exactly N
  bytes), a fixed number of filler bytes of a given value, and a raw byte block of
  exactly N bytes. A writer is the buffer written so far; a number wider than the
  field keeps its low bits.
\<close>

type_synonym writer = "byte list"

definition writeInt :: "int \<Rightarrow> writer \<Rightarrow> writer" where
  "writeInt v w = w @ int32_bytes v"

definition writeByte :: "int \<Rightarrow> writer \<Rightarrow> writer" where
  "writeByte v w = w @ [word_of_int v]"

definition writeBytes :: "int \<Rightarrow> byte list \<Rightarrow> writer \<Rightarrow> writer" where
  "writeBytes bytesCount v w = w @ take (nat bytesCount) (v @ replicate (nat bytesCount) 0)"

definition writeFiller :: "int \<Rightarrow> int \<Rightarrow> writer \<Rightarrow> writer" where
  "writeFiller n fillerValue w = w @ replicate (nat n) (word_of_int fillerValue)"

definition writeFixedLengthString :: "string \<Rightarrow> int \<Rightarrow> int \<Rightarrow> writer \<Rightarrow> writer" where
  "writeFixedLengthString v fillerValue fixedLength w =
     w @ take (nat fixedLength)
           (map of_char v @ replicate (nat fixedLength) (word_of_int fillerValue))"

text \<open>
  Modelled from the spec: \<open>packets/PacketReader\<close> is not among the sources. The
  reader is a cursor over the buffered bytes with primitive parsers mirroring the
  writer. A reader is the list of bytes from the cursor on; a parser that needs more
  bytes than are left yields \<open>None\<close>. The null-terminated string of a field of
  \<open>n\<close> bytes is the bytes before the first zero byte of the field.
\<close>

type_synonym reader = "byte list"

definition parseInt :: "reader \<Rightarrow> (int \<times> reader) option" where
  "parseInt r = (case r of a # b # c # d # r' \<Rightarrow> Some (sint (be32 a b c d), r') | _ \<Rightarrow> None)"

definition parseByte :: "reader \<Rightarrow> (int \<times> reader) option" where
  "parseByte r = (case r of b # r' \<Rightarrow> Some (uint b, r') | [] \<Rightarrow> None)"

definition parseBytes :: "int \<Rightarrow> reader \<Rightarrow> (byte list \<times> reader) option" where
  "parseBytes bytesCount r =
     (if length r < nat bytesCount then None
      else Some (take (nat bytesCount) r, drop (nat bytesCount) r))"

definition parseNullTerminatedString :: "int \<Rightarrow> reader \<Rightarrow> (string \<times> reader) option" where
  "parseNullTerminatedString n r =
     (if n \<le> 0 then Some ([], r)
      else if length r < nat n then None
      else Some (map (\<lambda>b. char_of (unat b)) (takeWhile (\<lambda>b. b \<noteq> 0) (take (nat n) r)),
                 drop (nat n) r))"


subsection \<open>The error-code table\<close>

text \<open>\<open>ErrorMessages.CASErrorMsgId\<close>, as in the source.\<close>

definition CASErrorMsgId :: "(string \<times> int) list" where
  "CASErrorMsgId =
    [(''CAS_ER_DBMS'', -1000),
     (''CAS_ER_INTERNAL'', -1001),
     (''CAS_ER_NO_MORE_MEMORY'', -1002),
     (''CAS_ER_COMMUNICATION'', -1003),
     (''CAS_ER_ARGS'', -1004),
     (''CAS_ER_TRAN_TYPE'', -1005),
     (''CAS_ER_SRV_HANDLE'', -1006),
     (''CAS_ER_NUM_BIND'', -1007),
     (''CAS_ER_UNKNOWN_U_TYPE'', -1008),
     (''CAS_ER_DB_VALUE'', -1009),
     (''CAS_ER_TYPE_CONVERSION'', -1010),
     (''CAS_ER_PARAM_NAME'', -1011),
     (''CAS_ER_NO_MORE_DATA'', -1012),
     (''CAS_ER_OBJECT'', -1013),
     (''CAS_ER_OPEN_FILE'', -1014),
     (''CAS_ER_SCHEMA_TYPE'', -1015),
     (''CAS_ER_VERSION'', -1016),
     (''CAS_ER_FREE_SERVER'', -1017),
     (''CAS_ER_NOT_AUTHORIZED_CLIENT'', -1018),
     (''CAS_ER_QUERY_CANCEL'', -1019),
     (''CAS_ER_NOT_COLLECTION'', -1020),
     (''CAS_ER_COLLECTION_DOMAIN'', -1021),
     (''CAS_ER_NO_MORE_RESULT_SET'', -1022),
     (''CAS_ER_INVALID_CALL_STMT'', -1023),
     (''CAS_ER_STMT_POOLING'', -1024),
     (''CAS_ER_DBSERVER_DISCONNECTED'', -1025),
     (''CAS_ER_MAX_PREPARED_STMT_COUNT_EXCEEDED'', -1026),
     (''CAS_ER_HOLDABLE_NOT_ALLOWED'', -1027),
     (''CAS_ER_NOT_IMPLEMENTED'', -1100),
     (''CAS_ER_IS'', -1200)]"

text \<open>
  Modelled from the spec: \<open>Helpers._resolveErrorCode\<close> is not among the sources.
  It resolves a human-readable text from the error-code table: the name of the first
  entry with that code; \<open>None\<close> stands for no entry.
\<close>

definition resolveErrorCode :: "int \<Rightarrow> string option" where
  "resolveErrorCode errorCode = map_option fst (find (\<lambda>e. snd e = errorCode) CASErrorMsgId)"

section \<open>Packets\<close>

text \<open>
  The fields every decoder sets (\<open>response\<close>), the error tail of the packets of
  \<open>src/packets\<close> (\<open>reply\<close>), and the packet object that \<open>query\<close> keeps
  in the handle list: its server handle and the two tuple counters.
\<close>

record response =
  casInfo :: "byte list"
  responseCode :: int

record reply = response +
  errorCode :: int
  errorMsg :: "string option"

record ExecuteQueryPacket = reply +
  handle :: int
  currentTupleCount :: int
  totalTupleCount :: int

record FetchPacket = reply +
  tupleCount :: "int option"

text \<open>The constructor of \<open>FetchPacket\<close>.\<close>

definition new_FetchPacket :: "byte list \<Rightarrow> FetchPacket" where
  "new_FetchPacket options_casInfo =
     \<lparr>casInfo = options_casInfo, responseCode = 0, errorCode = 0, errorMsg = Some [],
      tupleCount = None\<rparr>"

text \<open>
  \<open>FetchPacket.prototype.write\<close>. The function code \<open>CAS_FC_FETCH\<close> comes from
  \<open>constants/CASConstants\<close>, which is not among the sources, and is a parameter.
\<close>

definition FetchPacket_write :: "int \<Rightarrow> FetchPacket \<Rightarrow> writer \<Rightarrow> ExecuteQueryPacket \<Rightarrow> writer" where
  "FetchPacket_write CAS_FC_FETCH this writer queryHandle =
     (let bufferLength = DATA_LENGTH_SIZEOF + CAS_INFO_SIZE +
            BYTE_SIZEOF + INT_SIZEOF + INT_SIZEOF +
            INT_SIZEOF + INT_SIZEOF + INT_SIZEOF + INT_SIZEOF +
            INT_SIZEOF + BYTE_SIZEOF + INT_SIZEOF + INT_SIZEOF
      in fold (\<lambda>step w. step w)
           [writeInt (bufferLength - DATA_LENGTH_SIZEOF - CAS_INFO_SIZE),
            writeBytes CAS_INFO_SIZE (casInfo this),
            writeByte CAS_FC_FETCH,
            writeInt INT_SIZEOF,
            writeInt (handle queryHandle),
            writeInt INT_SIZEOF,
            writeInt (currentTupleCount queryHandle + 1),
            writeInt INT_SIZEOF,
            writeInt 100,
            writeInt BYTE_SIZEOF,
            writeByte 0,
            writeInt INT_SIZEOF,
            writeInt 0]
           writer)"

text \<open>
  \<open>FetchPacket.prototype.parse\<close>. It gives the packet after the call and the value
  returned (\<open>None\<close>: nothing is returned). \<open>getData\<close> stands for
  \<open>JSON.stringify({ColumnValues : queryHandle._getData(parser, tupleCount)})\<close>, whose
  code is not among the sources. The handle is \<open>None\<close> when the argument is
  \<open>undefined\<close>, and reading \<open>_getData\<close> of it throws.
\<close>

definition FetchPacket_parse ::
  "(ExecuteQueryPacket \<Rightarrow> reader \<Rightarrow> int \<Rightarrow> string) \<Rightarrow> FetchPacket \<Rightarrow> reader
     \<Rightarrow> ExecuteQueryPacket option \<Rightarrow> (FetchPacket \<times> string option) option" where
  "FetchPacket_parse getData this parser queryHandle =
     do {
       (responseLength, p1) \<leftarrow> parseInt parser;
       (ci, p2) \<leftarrow> parseBytes CAS_INFO_SIZE p1;
       (rc, p3) \<leftarrow> parseInt p2;
       if rc \<noteq> 0 then
         do {
           (ec, p4) \<leftarrow> parseInt p3;
           (msg, p5) \<leftarrow> parseNullTerminatedString (responseLength - 2 * INT_SIZEOF) p4;
           Some (this\<lparr>casInfo := ci, responseCode := rc, errorCode := ec,
                       errorMsg := (if length msg = 0 then resolveErrorCode ec else Some msg)\<rparr>,
                 None)
         }
       else
         do {
           (tc, p4) \<leftarrow> parseInt p3;
           q \<leftarrow> queryHandle;
           Some (this\<lparr>casInfo := ci, responseCode := rc, tupleCount := Some tc\<rparr>,
                 Some (getData q p4 tc))
         }
     }"

section \<open>The session\<close>

text \<open>
  The connection options that the open-database packet is built from. A session
  carries them as its fields \<open>database\<close>, \<open>user\<close> and \<open>password\<close>.
\<close>

record options =
  database :: string
  user :: string
  password :: string

text \<open>The \<open>'data'\<close> listeners that the operations put on the socket.\<close>

datatype listener =
    BrokerPortData
  | LoginData
  | QueryData
  | FetchData
  | CloseQueryData
  | RollbackData
  | CommitData
  | SetAutoCommitModeData

text \<open>
  The fields of a \<open>CUBRIDConnection\<close>. Of the socket the session keeps what the
  operations do to it: the buffers passed to \<open>_socket.write\<close>, in order
  (\<open>written\<close>), and the \<open>'data'\<close> listeners now registered. \<open>trace\<close>
  is the sequence of observations. The query cache maps the SQL text to the stored
  result (\<open>None\<close>: the session has no cache).
\<close>

record session = options +
  queryCache :: "(string \<times> jsval) list option"
  written :: "byte list list"
  dataListeners :: "listener list"
  brokerServer :: string
  initialBrokerPort :: int
  connectionBrokerPort :: int
  autoCommitMode :: jsval
  sessionId :: jsval
  connectionOpened :: bool
  connectionPending :: bool
  queryPending :: bool
  CASInfo :: "byte list"
  queriesHandleList :: "ExecuteQueryPacket list"
  trace :: "obs list"

text \<open>
  The constructor. \<open>x || d\<close> takes the default for the empty string and for the
  number 0; \<open>cacheTimeout\<close> is \<open>None\<close> when the argument is not given.
\<close>

definition CUBRIDConnection ::
  "string \<Rightarrow> int \<Rightarrow> string \<Rightarrow> string \<Rightarrow> string \<Rightarrow> int option \<Rightarrow> session" where
  "CUBRIDConnection brokerServer' brokerPort user' password' database' cacheTimeout =
     \<lparr>database = (if database' = [] then ''demodb'' else database'),
      user = (if user' = [] then ''public'' else user'),
      password = password',
      queryCache = (case cacheTimeout of None \<Rightarrow> None
                    | Some t \<Rightarrow> if t > 0 then Some [] else None),
      written = [],
      dataListeners = [],
      brokerServer = (if brokerServer' = [] then ''localhost'' else brokerServer'),
      initialBrokerPort = (if brokerPort = 0 then 33000 else brokerPort),
      connectionBrokerPort = -1,
      autoCommitMode = Null,
      sessionId = Num 0,
      connectionOpened = False,
      connectionPending = False,
      queryPending = False,
      CASInfo = [0, 0xFF, 0xFF, 0xFF],
      queriesHandleList = [],
      trace = []\<rparr>"

section \<open>The open-database packet\<close>

subsection \<open>Frozen objects\<close>

text \<open>
  A JavaScript object as far as \<open>Object.freeze\<close> is concerned: its properties, and
  whether it has been frozen. An object literal \<open>{...}\<close> is not frozen;
  \<open>Object.freeze\<close> returns its argument, frozen. An assignment \<open>o.p = v\<close> to
  a property of a frozen object leaves the object as it is, and throws a
  \<open>TypeError\<close> when the assigning code is strict; on an object that is not frozen
  it updates the property. \<open>assignProperty strict update obj\<close> is the object after
  the assignment \<open>update\<close>, and whether the assignment threw.
\<close>

datatype 'a object = Object (properties: 'a) (frozen: bool)

definition objectLiteral :: "'a \<Rightarrow> 'a object" where
  "objectLiteral props = Object props False"

definition Object_freeze :: "'a object \<Rightarrow> 'a object" where
  "Object_freeze obj = Object (properties obj) True"

definition assignProperty :: "bool \<Rightarrow> ('a \<Rightarrow> 'a) \<Rightarrow> 'a object \<Rightarrow> 'a object \<times> bool" where
  "assignProperty strict update obj =
     (if frozen obj then (obj, strict)
      else (Object (update (properties obj)) (frozen obj), False))"

subsection \<open>The packet\<close>

text \<open>
  The packet of \<open>src/packets/OpenDatabasePacket\<close>. Its constructor keeps the
  options; the other fields are assigned by \<open>parse\<close> and read as empty before.
  The broker information is the frozen object that \<open>parse\<close> builds.
\<close>

record brokerInfo =
  dbType :: byte
  protocolVersion :: int
  statementPolling :: byte

record OpenDatabasePacket = response +
  options :: options
  brokerInfo :: "brokerInfo object option"
  sessionId :: "int option"

definition new_OpenDatabasePacket :: "options \<Rightarrow> OpenDatabasePacket" where
  "new_OpenDatabasePacket opts =
     \<lparr>casInfo = [], responseCode = 0, options = opts, brokerInfo = None, sessionId = None\<rparr>"

definition OpenDatabasePacket_write :: "OpenDatabasePacket \<Rightarrow> writer \<Rightarrow> writer" where
  "OpenDatabasePacket_write this writer =
     fold (\<lambda>step w. step w)
       [writeFixedLengthString (database (options this)) 0 32,
        writeFixedLengthString (user (options this)) 0 32,
        writeFixedLengthString (password (options this)) 0 32,
        writeFiller 512 0,
        writeFiller 20 0]
       writer"

definition getBufferLength :: "OpenDatabasePacket \<Rightarrow> int" where
  "getBufferLength this = 32 * 3 + 512 + 20"

text \<open>
  Modelled from the spec: \<open>PacketReader.readError\<close> is not among the sources. After
  a negative response code the remaining bytes are the error code (an int) and a
  null-terminated error message; when the message is empty the text is resolved from
  the error-code table. The result is the error object.
\<close>

definition readError :: "int \<Rightarrow> reader \<Rightarrow> js_error option" where
  "readError responseLength r =
     do {
       (ec, r1) \<leftarrow> parseInt r;
       (msg, r2) \<leftarrow> parseNullTerminatedString (responseLength - 2 * INT_SIZEOF) r1;
       Some (ServerError ec (if length msg = 0 then resolveErrorCode ec else Some msg))
     }"

text \<open>
  \<open>OpenDatabasePacket.prototype.parse\<close>: the packet after the call and the value
  returned. \<open>CAS.getProtocolVersion\<close> is not among the sources and is a parameter.
\<close>

definition OpenDatabasePacket_parse ::
  "(byte \<Rightarrow> int) \<Rightarrow> OpenDatabasePacket \<Rightarrow> reader \<Rightarrow> (OpenDatabasePacket \<times> jsval) option" where
  "OpenDatabasePacket_parse getProtocolVersion this parser =
     do {
       (responseLength, p1) \<leftarrow> parseInt parser;
       (ci, p2) \<leftarrow> parseBytes CAS_INFO_SIZE p1;
       (rc, p3) \<leftarrow> parseInt p2;
       if rc < 0 then
         do {
           e \<leftarrow> readError responseLength p3;
           Some (this\<lparr>casInfo := ci, responseCode := rc\<rparr>, Err e)
         }
       else
         do {
           (bi, p4) \<leftarrow> parseBytes BROKER_INFO_SIZEOF p3;
           (sid, p5) \<leftarrow> parseInt p4;
           Some (this\<lparr>casInfo := ci, responseCode := rc,
                       brokerInfo := Some (Object_freeze (objectLiteral
                                              \<lparr>dbType = bi ! 0,
                                               protocolVersion = getProtocolVersion (bi ! 4),
                                               statementPolling = bi ! 2\<rparr>)),
                       sessionId := Some sid\<rparr>,
                 Undefined)
         }
     }"



section \<open>The operations of the session\<close>

subsection \<open>Collaborators that are not among the sources\<close>

text \<open>
  The input validators of \<open>utils/Helpers\<close>, \<open>getProtocolVersion\<close> of
  \<open>constants/CASConstants\<close>, and the encoders and decoders of the packet classes of
  \<open>src/packets\<close> other than \<open>FetchPacket\<close> and \<open>OpenDatabasePacket\<close> are
  not among the sources. The operations take them as parameters, gathered in one record:
  a \<open>write\<close> gives the buffer that the packet, built from the listed options, leaves
  in a fresh \<open>PacketWriter\<close>; a \<open>parse\<close> gives the fields of the packet after
  parsing a buffer, or \<open>None\<close> when parsing throws.
\<close>

record collaborators =
  validateInputSQLString :: "string \<Rightarrow> bool"
  validateInputTimeout :: "int \<Rightarrow> bool"
  validateInputBoolean :: "jsval \<Rightarrow> bool"
  ClientInfoExchangePacket_write :: "byte list"
  ClientInfoExchangePacket_parse :: "byte list \<Rightarrow> int option"
  getProtocolVersion :: "byte \<Rightarrow> int"
  ExecuteQueryPacket_write :: "string \<Rightarrow> byte list \<Rightarrow> jsval \<Rightarrow> byte list"
  ExecuteQueryPacket_parse :: "byte list \<Rightarrow> (ExecuteQueryPacket \<times> jsval) option"
  CloseQueryPacket_write :: "byte list \<Rightarrow> int \<Rightarrow> byte list"
  CloseQueryPacket_parse :: "byte list \<Rightarrow> reply option"
  SetAutoCommitModePacket_write :: "byte list \<Rightarrow> jsval \<Rightarrow> byte list"
  SetAutoCommitModePacket_parse :: "byte list \<Rightarrow> reply option"
  RollbackPacket_write :: "byte list \<Rightarrow> byte list"
  RollbackPacket_parse :: "byte list \<Rightarrow> reply option"
  CommitPacket_write :: "byte list \<Rightarrow> byte list"
  CommitPacket_parse :: "byte list \<Rightarrow> reply option"
  CAS_FC_FETCH :: int
  getData :: "ExecuteQueryPacket \<Rightarrow> reader \<Rightarrow> int \<Rightarrow> string"

subsection \<open>Socket, events, callbacks\<close>

definition socket_write :: "byte list \<Rightarrow> session \<Rightarrow> session" where
  "socket_write buffer s = s\<lparr>written := written s @ [buffer]\<rparr>"

definition socket_on :: "listener \<Rightarrow> session \<Rightarrow> session" where
  "socket_on l s = s\<lparr>dataListeners := dataListeners s @ [l]\<rparr>"

definition removeAllListeners :: "session \<Rightarrow> session" where
  "removeAllListeners s = s\<lparr>dataListeners := []\<rparr>"

text \<open>\<open>Net.createConnection\<close>: a new socket, with no listener yet.\<close>

definition createConnection :: "session \<Rightarrow> session" where
  "createConnection s = s\<lparr>dataListeners := []\<rparr>"

definition emit :: "event \<Rightarrow> jsval list \<Rightarrow> session \<Rightarrow> session" where
  "emit e args s = s\<lparr>trace := trace s @ [Emit e args]\<rparr>"

text \<open>
  Modelled from the spec: \<open>Helpers._emitEvent\<close> is not among the sources; its unit
  test \<open>test_emitEvent\<close> is. Every operation delivers its outcome through an event:
  with an error the error event is emitted, carrying the error, and otherwise the
  success event with the remaining arguments. A call that names no event for the
  outcome (\<open>null\<close>) emits nothing, and an error event without a listener does not
  stop the program.
\<close>

definition emitEvent :: "jsval \<Rightarrow> event option \<Rightarrow> event option \<Rightarrow> jsval list \<Rightarrow> session \<Rightarrow> session" where
  "emitEvent err errorEvent successEvent args s =
     (if is_err err then (case errorEvent of None \<Rightarrow> s | Some e \<Rightarrow> emit e [err] s)
      else (case successEvent of None \<Rightarrow> s | Some e \<Rightarrow> emit e args s))"

text \<open>
  A callback is a function of its arguments that acts on the session;
  \<open>None\<close> is a callback that was not passed or is not a function, so that
  \<open>call\<close> is \<open>if (callback && typeof(callback) === 'function') callback.call(self, ...)\<close>.
  The caller's own completion callback only records that it was invoked.
\<close>

type_synonym cont = "jsval list \<Rightarrow> session \<Rightarrow> session"

definition call :: "cont option \<Rightarrow> jsval list \<Rightarrow> session \<Rightarrow> session" where
  "call callback args s = (case callback of None \<Rightarrow> s | Some k \<Rightarrow> k args s)"

definition user_callback :: cont where
  "user_callback args s = s\<lparr>trace := trace s @ [Callback args]\<rparr>"

subsection \<open>The action queue\<close>

text \<open>
  Modelled from the spec: \<open>utils/ActionQueue\<close> is not among the sources. The queue
  is a FIFO of single-shot closures sharing one completion channel, with one action in
  flight at a time: each action receives the callback that starts the next action, an
  error passed to that callback goes to the completion function at once, and the last
  action's callback is the completion function. \<open>waterfall fs final\<close> is the callback
  handed to the action that precedes the actions \<open>fs\<close>.
\<close>

primrec waterfall :: "(cont \<Rightarrow> session \<Rightarrow> session) list \<Rightarrow> cont \<Rightarrow> cont" where
  "waterfall [] final = final"
| "waterfall (f # fs) final =
     (\<lambda>args s. if is_err (arg 0 args) then final args s else f (waterfall fs final) s)"

definition enqueue :: "(cont \<Rightarrow> session \<Rightarrow> session) list \<Rightarrow> cont \<Rightarrow> session \<Rightarrow> session" where
  "enqueue tasks final s = (if tasks = [] then final [] s else waterfall tasks final [] s)"

subsection \<open>Receiving a response\<close>







subsection \<open>Connecting\<close>

text \<open>
  \<open>_doGetBrokerPort\<close>: a new socket, the client-info packet, then a one-shot
  \<open>'data'\<close> listener that holds the callback. Socket errors are outside this
  development.
\<close>

definition doGetBrokerPort :: "collaborators \<Rightarrow> cont \<Rightarrow> session \<Rightarrow> session" where
  "doGetBrokerPort C callback s =
     socket_on BrokerPortData (socket_write (ClientInfoExchangePacket_write C) (createConnection s))"


text \<open>
  \<open>_doDatabaseLogin\<close>: a new socket and the open-database packet, built from the
  session's database, user and password, then a \<open>'data'\<close> listener that holds the
  packet and the callback.
\<close>

definition doDatabaseLogin_packet :: "session \<Rightarrow> OpenDatabasePacket" where
  "doDatabaseLogin_packet s =
     new_OpenDatabasePacket \<lparr>database = database s, user = user s, password = password s\<rparr>"

definition doDatabaseLogin :: "collaborators \<Rightarrow> cont \<Rightarrow> session \<Rightarrow> session" where
  "doDatabaseLogin C callback s =
     socket_on LoginData
       (socket_write (OpenDatabasePacket_write (doDatabaseLogin_packet s) [])
          (createConnection s))"


text \<open>The completion function of the queue of \<open>connect\<close>, and \<open>connect\<close>.\<close>

definition connect_final :: "cont option \<Rightarrow> cont" where
  "connect_final callback args s =
     (let err = arg 0 args;
          s1 = s\<lparr>queryPending := False\<rparr>;
          s2 = s1\<lparr>connectionPending := False\<rparr>;
          s3 = (if is_err err then s2\<lparr>connectionOpened := False\<rparr>
                else s2\<lparr>connectionOpened := True\<rparr>);
          s4 = emitEvent err (Some EVENT_ERROR) (Some EVENT_CONNECTED) [] s3
      in call callback [err] s4)"

definition connect :: "collaborators \<Rightarrow> cont option \<Rightarrow> session \<Rightarrow> session" where
  "connect C callback s =
     (if connectionPending s then
        call callback [Err ERROR_CONNECTION_ALREADY_PENDING]
          (emitEvent (Err ERROR_CONNECTION_ALREADY_PENDING) (Some EVENT_ERROR) None [] s)
      else
        enqueue [doGetBrokerPort C, doDatabaseLogin C] (connect_final callback)
          (s\<lparr>connectionPending := True\<rparr>))"

subsection \<open>Queries\<close>

text \<open>
  Modelled from the spec: \<open>utils/Cache\<close> is not among the sources. The cache maps
  the exact SQL text to the stored result, and an insertion never replaces an entry
  that is there. Expiry of entries depends on the wall clock and is outside this
  development: a stored entry is taken as live.
\<close>

definition cache_contains :: "(string \<times> jsval) list \<Rightarrow> string \<Rightarrow> bool" where
  "cache_contains c sql = (map_of c sql \<noteq> None)"

definition cache_get :: "(string \<times> jsval) list \<Rightarrow> string \<Rightarrow> jsval" where
  "cache_get c sql = (case map_of c sql of None \<Rightarrow> Undefined | Some v \<Rightarrow> v)"


text \<open>The completion function of the queue of \<open>query\<close>.\<close>

definition query_final :: "cont option \<Rightarrow> cont" where
  "query_final callback args s =
     (let err = arg 0 args; result = arg 1 args; h = arg 2 args;
          s1 = (if is_err err then s\<lparr>queryPending := False\<rparr> else s);
          s2 = emitEvent err (Some EVENT_ERROR) (Some EVENT_QUERY_DATA_AVAILABLE) [result, h] s1
      in call callback [err, result, h] s2)"

text \<open>The first action of the queue: connect if the connection is not open.\<close>

definition query_checkConnection :: "collaborators \<Rightarrow> cont \<Rightarrow> session \<Rightarrow> session" where
  "query_checkConnection C cb s =
     (if connectionOpened s = False then connect C (Some cb) s else cb [] s)"

text \<open>
  The second action: answer from the cache (and return without calling \<open>cb\<close>), or
  write the execute packet and listen for the response.
\<close>

definition query_execute :: "collaborators \<Rightarrow> string \<Rightarrow> cont option \<Rightarrow> cont \<Rightarrow> session \<Rightarrow> session" where
  "query_execute C sql callback cb s =
     (if queryCache s \<noteq> None \<and> cache_contains (the (queryCache s)) sql then
        (let s1 = s\<lparr>queryPending := False\<rparr>;
             s2 = emitEvent Null None (Some EVENT_QUERY_DATA_AVAILABLE)
                    [cache_get (the (queryCache s1)) sql, Null] s1
         in call callback [Null, cache_get (the (queryCache s2)) sql, Null] s2)
      else
        socket_on QueryData
          (socket_write (ExecuteQueryPacket_write C sql (CASInfo s) (autoCommitMode s)) s))"


definition query :: "collaborators \<Rightarrow> string \<Rightarrow> cont option \<Rightarrow> session \<Rightarrow> session" where
  "query C sql callback s =
     (if queryPending s then
        call callback [Err ERROR_QUERY_ALREADY_PENDING]
          (emitEvent (Err ERROR_QUERY_ALREADY_PENDING) (Some EVENT_ERROR) None [] s)
      else if \<not> validateInputSQLString C sql then
        call callback [Null]
          (emitEvent (Err ERROR_INPUT_VALIDATION) (Some EVENT_ERROR) None [] s)
      else
        enqueue [query_checkConnection C, query_execute C sql callback] (query_final callback)
          (s\<lparr>queryPending := True\<rparr>))"

subsection \<open>Fetching\<close>

text \<open>The search loop of \<open>fetch\<close>: the first index whose packet has the handle.\<close>

primrec handleIndex :: "int \<Rightarrow> ExecuteQueryPacket list \<Rightarrow> nat option" where
  "handleIndex h [] = None"
| "handleIndex h (q # qs) = (if handle q = h then Some 0 else map_option Suc (handleIndex h qs))"

definition fetch :: "collaborators \<Rightarrow> int \<Rightarrow> cont option \<Rightarrow> session \<Rightarrow> session" where
  "fetch C queryHandle callback s =
     (let s0 = socket_on FetchData s
      in case handleIndex queryHandle (queriesHandleList s0) of
           None \<Rightarrow>
             call callback [Err ERROR_NO_ACTIVE_QUERY, Null]
               (emitEvent (Err ERROR_NO_ACTIVE_QUERY) (Some EVENT_ERROR) None []
                  (removeAllListeners s0))
         | Some i \<Rightarrow>
             if currentTupleCount (queriesHandleList s0 ! i)
                  = totalTupleCount (queriesHandleList s0 ! i)
             then
               call callback [Null, Null]
                 (emitEvent Null None (Some EVENT_FETCH_NO_MORE_DATA_AVAILABLE) []
                    (removeAllListeners s0))
             else
               socket_write
                 (FetchPacket_write (CAS_FC_FETCH C) (new_FetchPacket (CASInfo s0)) []
                    (queriesHandleList s0 ! i))
                 s0)"


subsection \<open>Closing\<close>

text \<open>The loop of \<open>closeQuery\<close>: \<open>splice(i, 1)\<close> at the first index with the handle.\<close>

primrec spliceHandle :: "int \<Rightarrow> ExecuteQueryPacket list \<Rightarrow> ExecuteQueryPacket list" where
  "spliceHandle h [] = []"
| "spliceHandle h (q # qs) = (if handle q = h then qs else q # spliceHandle h qs)"

definition closeQuery :: "collaborators \<Rightarrow> int \<Rightarrow> cont option \<Rightarrow> session \<Rightarrow> session" where
  "closeQuery C queryHandle callback s =
     (if \<not> validateInputTimeout C queryHandle then
        call callback [Null]
          (emitEvent (Err ERROR_INPUT_VALIDATION) (Some EVENT_ERROR) None [] s)
      else
        (let s1 = s\<lparr>queryPending := False\<rparr>;
             s2 = s1\<lparr>queriesHandleList := spliceHandle queryHandle (queriesHandleList s1)\<rparr>;
             s3 = socket_write (CloseQueryPacket_write C (CASInfo s) queryHandle) s2
         in socket_on CloseQueryData s3))"



subsection \<open>Transactions\<close>











section \<open>Frames\<close>

text \<open>
  The parts of a frame, as the layout of the wire unit names them: the length field is
  the first four bytes read as a big-endian number, the CAS info the next four bytes,
  and the body every byte after these eight.
\<close>

definition frame_lengthField :: "byte list \<Rightarrow> int option" where
  "frame_lengthField frame = map_option fst (parseInt frame)"

definition frame_casInfo :: "byte list \<Rightarrow> byte list" where
  "frame_casInfo frame = take 4 (drop 4 frame)"

definition frame_body :: "byte list \<Rightarrow> byte list" where
  "frame_body frame = drop 8 frame"

section \<open>Test vectors and sample inputs\<close>

text \<open>
  The response that \<open>test/packets.OpenDatabasePacket.js\<close> feeds to the parser, and
  the request and the response of \<open>unit_tests/test_CloseDatabasePacket.js\<close> (the
  request as the spec's first scenario spells it out).
\<close>

definition open_database_response :: "byte list" where
  "open_database_response =
     [0, 0, 0, 15,
      0, 255, 255, 255,
      0, 0, 0, 0,
      5, 5, 5, 5, 5, 5, 5, 5,
      0, 0, 0, 3]"

definition close_database_request :: "byte list" where
  "close_database_request = [0, 0, 0, 1, 0, 255, 255, 255, 7]"

definition close_database_response :: "byte list" where
  "close_database_response = [0, 0, 0, 0, 0, 255, 255, 255, 0, 0, 0, 0]"

text \<open>The options of the test of the open-database packet, and the same with another password.\<close>

definition test_options :: options where
  "test_options = \<lparr>database = ''manager_master'', user = ''nsight'', password = ''ns0)3#ht''\<rparr>"

definition other_options :: options where
  "other_options = \<lparr>database = ''manager_master'', user = ''nsight'', password = ''secret''\<rparr>"

text \<open>
  The error response of the spec's fourth scenario as a frame: response code \<open>-1\<close>,
  error code \<open>-1012\<close>, empty message. Then a fetch response with two tuples and
  no row data, a frame that ends after the CAS info, an acknowledgement with response
  code 0, and the open-database response with the length field that the receiving
  listener waits for, 16.
\<close>

definition no_more_data_response :: "byte list" where
  "no_more_data_response =
     [0, 0, 0, 9,
      0, 255, 255, 255,
      255, 255, 255, 255,
      255, 255, 252, 12,
      0]"

definition fetch_response :: "byte list" where
  "fetch_response = [0, 0, 0, 8, 0, 255, 255, 255, 0, 0, 0, 0, 0, 0, 0, 2]"




text \<open>Handles as in the spec's third scenario: 42 with 100 of 250 tuples read, 9 read to the end.\<close>

definition handle42 :: ExecuteQueryPacket where
  "handle42 =
     \<lparr>casInfo = [0, 255, 255, 255], responseCode = 0, errorCode = 0, errorMsg = Some [],
      handle = 42, currentTupleCount = 100, totalTupleCount = 250\<rparr>"

definition handle9 :: ExecuteQueryPacket where
  "handle9 =
     \<lparr>casInfo = [0, 255, 255, 255], responseCode = 0, errorCode = 0, errorMsg = Some [],
      handle = 9, currentTupleCount = 250, totalTupleCount = 250\<rparr>"

text \<open>
  Modelled from the spec: sample collaborators, for running the operations on concrete
  inputs. A request is the length of its body, the CAS info, and the body, which
  starts with a function code. A response is decoded by the common tail: after the
  length and the CAS info a signed response code; if it is negative, an error code and
  a null-terminated message, resolved from the table when empty. The validators accept
  a non-empty SQL text, a handle that is not negative, and the two booleans.
\<close>

definition sample_request :: "int \<Rightarrow> byte list \<Rightarrow> byte list \<Rightarrow> byte list" where
  "sample_request functionCode body ci =
     writeInt (1 + int (length body)) [] @ writeBytes CAS_INFO_SIZE ci [] @
     writeByte functionCode [] @ body"

definition sample_parse :: "byte list \<Rightarrow> reply option" where
  "sample_parse data =
     do {
       (responseLength, p1) \<leftarrow> parseInt data;
       (ci, p2) \<leftarrow> parseBytes CAS_INFO_SIZE p1;
       (rc, p3) \<leftarrow> parseInt p2;
       if rc < 0 then
         do {
           (ec, p4) \<leftarrow> parseInt p3;
           (msg, p5) \<leftarrow> parseNullTerminatedString (responseLength - 2 * INT_SIZEOF) p4;
           Some \<lparr>casInfo = ci, responseCode = rc, errorCode = ec,
                 errorMsg = (if length msg = 0 then resolveErrorCode ec else Some msg)\<rparr>
         }
       else Some \<lparr>casInfo = ci, responseCode = rc, errorCode = 0, errorMsg = Some []\<rparr>
     }"

definition sample_collaborators :: collaborators where
  "sample_collaborators =
     \<lparr>validateInputSQLString = (\<lambda>sql. sql \<noteq> []),
      validateInputTimeout = (\<lambda>h. 0 \<le> h),
      validateInputBoolean = (\<lambda>v. v = Boolean True \<or> v = Boolean False),
      ClientInfoExchangePacket_write = map of_char ''CUBRK'' @ [3, 0, 0, 0, 0],
      ClientInfoExchangePacket_parse = (\<lambda>data. map_option fst (parseInt data)),
      getProtocolVersion = uint,
      ExecuteQueryPacket_write = (\<lambda>sql ci mode. sample_request 3 (map of_char sql) ci),
      ExecuteQueryPacket_parse = (\<lambda>data.
         do {
           p \<leftarrow> sample_parse data;
           Some (\<lparr>casInfo = casInfo p, responseCode = responseCode p, errorCode = errorCode p,
                  errorMsg = errorMsg p, handle = 42, currentTupleCount = 100,
                  totalTupleCount = 250\<rparr>,
                 if errorCode p \<noteq> 0 then Undefined else Str ''rows'')
         }),
      CloseQueryPacket_write = (\<lambda>ci h. sample_request 6 (writeInt h []) ci),
      CloseQueryPacket_parse = sample_parse,
      SetAutoCommitModePacket_write = (\<lambda>ci mode.
         sample_request 5 (if mode = Boolean True then [1] else [0]) ci),
      SetAutoCommitModePacket_parse = sample_parse,
      RollbackPacket_write = sample_request 1 [2],
      RollbackPacket_parse = sample_parse,
      CommitPacket_write = sample_request 1 [1],
      CommitPacket_parse = sample_parse,
      CAS_FC_FETCH = 8,
      getData = (\<lambda>q r n. ''[]'')\<rparr>"

text \<open>
  Sample sessions: one just constructed, with all defaults; the same after a
  handshake (open, auto-commit on); and an open one with auto-commit off that holds
  the two handles.
\<close>

definition new_session :: session where
  "new_session = CUBRIDConnection [] 0 [] [] [] None"

definition open_session :: session where
  "open_session =
     new_session\<lparr>connectionOpened := True, autoCommitMode := Boolean True, session.sessionId := Num 3\<rparr>"

definition busy_session :: session where
  "busy_session =
     open_session\<lparr>autoCommitMode := Boolean False, queriesHandleList := [handle9, handle42]\<rparr>"











section \<open>Properties of the codec\<close>

lemmas sizes =
  DATA_LENGTH_SIZEOF_def CAS_INFO_SIZE_def BYTE_SIZEOF_def INT_SIZEOF_def BROKER_INFO_SIZEOF_def

lemma length_int32_bytes: "length (int32_bytes v) = 4"
  by (simp add: int32_bytes_def Let_def)

text \<open>Joining the four bytes of a word gives the word back.\<close>

lemma be32_split:
  "be32 (ucast (drop_bit 24 w)) (ucast (drop_bit 16 w)) (ucast (drop_bit 8 w)) (ucast w)
     = (w :: 32 word)"
  unfolding be32_def
proof (rule bit_word_eqI)
  fix n assume "n < LENGTH(32)"
  then consider "n < 8" | "8 \<le> n" "n < 16" | "16 \<le> n" "n < 24" | "24 \<le> n" "n < 32"
    by fastforce
  then show "bit (push_bit 24 (ucast (ucast (drop_bit 24 w) :: byte))
                  OR push_bit 16 (ucast (ucast (drop_bit 16 w) :: byte))
                  OR push_bit 8 (ucast (ucast (drop_bit 8 w) :: byte))
                  OR ucast (ucast w :: byte) :: 32 word) n = bit w n"
    by cases (auto simp add: bit_simps)
qed

lemma parseInt_int32_bytes:
  "parseInt (int32_bytes v @ r) = Some (sint (word_of_int v :: 32 word), r)"
  by (simp add: parseInt_def int32_bytes_def Let_def be32_split)

lemma sint_int32: "- (2 ^ 31) \<le> v \<Longrightarrow> v < 2 ^ 31 \<Longrightarrow> sint (word_of_int v :: 32 word) = v"
  by (simp add: sint_sbintrunc' signed_take_bit_int_eq_self)

lemma parseInt_int32_bytes_range:
  "- (2 ^ 31) \<le> v \<Longrightarrow> v < 2 ^ 31 \<Longrightarrow> parseInt (int32_bytes v @ r) = Some (v, r)"
  by (simp add: parseInt_int32_bytes sint_int32)

lemma parseBytes_exact: "length bs = nat n \<Longrightarrow> parseBytes n (bs @ r) = Some (bs, r)"
  by (simp add: parseBytes_def)

lemma parseByte_writeByte:
  "0 \<le> v \<Longrightarrow> v < 256 \<Longrightarrow> parseByte (word_of_int v # r) = Some (v, r)"
  by (simp add: parseByte_def uint_word_of_int take_bit_eq_mod)

subsection \<open>Strings and bytes\<close>

lemma unat_of_char: "unat (of_char c :: byte) = of_char c"
proof -
  have "unat (of_char c :: byte) = unat (of_nat (of_char c :: nat) :: byte)"
    by (simp only: of_nat_of_char)
  also have "\<dots> = (of_char c :: nat) mod 2 ^ LENGTH(8)"
    by (rule unat_of_nat)
  also have "\<dots> = of_char c"
    by simp
  finally show ?thesis .
qed

lemma char_of_byte_of_char: "char_of (unat (of_char c :: byte)) = c"
  by (simp add: unat_of_char)

lemma of_char_zero: "(of_char c :: byte) = 0 \<longleftrightarrow> c = CHR 0x00"
proof -
  have "(of_char c :: byte) = 0 \<longleftrightarrow> unat (of_char c :: byte) = 0"
    by (simp add: unat_eq_0)
  also have "\<dots> \<longleftrightarrow> (of_char c :: nat) = of_char (CHR 0x00)"
    by (simp add: unat_of_char)
  also have "\<dots> \<longleftrightarrow> c = CHR 0x00"
    by (simp only: of_char_eq_iff)
  finally show ?thesis .
qed

lemma takeWhile_padded:
  assumes "CHR 0x00 \<notin> set v" and "length v \<le> n"
  shows "takeWhile (\<lambda>b. b \<noteq> 0) (take n (map of_char v @ replicate n (0::byte))) = map of_char v"
proof -
  have nz: "\<forall>b \<in> set (map of_char v :: byte list). b \<noteq> 0"
    using assms(1) by (auto simp add: of_char_zero)
  have "take n (map of_char v @ replicate n (0::byte))
          = map of_char v @ replicate (n - length v) 0"
    using assms(2) by simp
  moreover have "takeWhile (\<lambda>b. b \<noteq> 0) (map of_char v @ replicate (n - length v) (0::byte))
          = map of_char v"
    using nz by (cases "n - length v") (simp_all add: takeWhile_append2 takeWhile_tail)
  ultimately show ?thesis by simp
qed

lemma takeWhile_terminated:
  "0 \<notin> set msg \<Longrightarrow> takeWhile (\<lambda>b. b \<noteq> 0) (msg @ [0::byte]) = msg"
  by (induction msg) auto

lemma parseNullTerminatedString_field:
  "length f = n \<Longrightarrow> 0 < n \<Longrightarrow>
     parseNullTerminatedString (int n) (f @ r)
       = Some (map (\<lambda>b. char_of (unat b)) (takeWhile (\<lambda>b. b \<noteq> 0) f), r)"
  by (simp add: parseNullTerminatedString_def)

lemma parse_message:
  assumes "0 \<notin> set msg"
  shows "parseNullTerminatedString (int (length msg) + 1) (msg @ [0] @ r)
           = Some (map (\<lambda>b. char_of (unat b)) msg, r)"
  using parseNullTerminatedString_field [of "msg @ [0]" "Suc (length msg)" r]
    takeWhile_terminated [OF assms]
  by (simp add: add.commute)

lemma parse_fixed_string:
  assumes "CHR 0x00 \<notin> set v" and "length v \<le> 32"
  shows "parseNullTerminatedString 32 (writeFixedLengthString v 0 32 [] @ r) = Some (v, r)"
proof -
  let ?f = "take 32 (map of_char v @ replicate 32 (0::byte))"
  have len: "length ?f = 32"
    by simp
  have "parseNullTerminatedString 32 (?f @ r)
      = Some (map (\<lambda>b. char_of (unat b)) (takeWhile (\<lambda>b. b \<noteq> 0) ?f), r)"
    using parseNullTerminatedString_field [OF len, of r] by simp
  also have "takeWhile (\<lambda>b. b \<noteq> 0) ?f = map of_char v"
    using takeWhile_padded [OF assms(1), of 32] assms(2) by simp
  also have "map (\<lambda>b. char_of (unat b)) (map of_char v :: byte list) = v"
    by (simp add: o_def char_of_byte_of_char)
  finally show ?thesis
    by (simp add: writeFixedLengthString_def)
qed

subsection \<open>The fetch request\<close>

lemma FetchPacket_write_bytes:
  "FetchPacket_write fc (new_FetchPacket ci) [] q =
     int32_bytes 38 @ take 4 (ci @ replicate 4 0) @ [word_of_int fc] @
     int32_bytes 4 @ int32_bytes (handle q) @
     int32_bytes 4 @ int32_bytes (currentTupleCount q + 1) @
     int32_bytes 4 @ int32_bytes 100 @
     int32_bytes 1 @ [0] @
     int32_bytes 4 @ int32_bytes 0"
  by (simp add: FetchPacket_write_def new_FetchPacket_def writeInt_def writeByte_def
      writeBytes_def sizes)

lemma min_pad: "min n (4::nat) + (4 - n) = 4"
  by arith

lemma length_FetchPacket_write: "length (FetchPacket_write fc (new_FetchPacket ci) [] q) = 46"
  by (simp add: FetchPacket_write_bytes length_int32_bytes)

lemma FetchPacket_write_start:
  "take 4 (drop 21 (FetchPacket_write fc (new_FetchPacket ci) [] q))
     = int32_bytes (currentTupleCount q + 1)"
  by (simp add: FetchPacket_write_bytes length_int32_bytes min_pad)

lemma FetchPacket_write_size:
  "take 4 (drop 29 (FetchPacket_write fc (new_FetchPacket ci) [] q)) = int32_bytes 100"
  by (simp add: FetchPacket_write_bytes length_int32_bytes min_pad)

lemma parseInt_start:
  "parseInt (drop 21 (FetchPacket_write fc (new_FetchPacket ci) [] q))
     = Some (sint (word_of_int (currentTupleCount q + 1) :: 32 word),
             drop 25 (FetchPacket_write fc (new_FetchPacket ci) [] q))"
  by (simp add: FetchPacket_write_bytes length_int32_bytes min_pad parseInt_int32_bytes)

lemma parseInt_start_range:
  assumes "- (2 ^ 31) \<le> currentTupleCount q + 1" and "currentTupleCount q + 1 < 2 ^ 31"
  shows "parseInt (drop 21 (FetchPacket_write fc (new_FetchPacket ci) [] q))
     = Some (currentTupleCount q + 1, drop 25 (FetchPacket_write fc (new_FetchPacket ci) [] q))"
  unfolding parseInt_start using sint_int32 [OF assms] by (simp only:)

lemma parseInt_size:
  "parseInt (drop 29 (FetchPacket_write fc (new_FetchPacket ci) [] q))
     = Some (100, drop 33 (FetchPacket_write fc (new_FetchPacket ci) [] q))"
  by (simp add: FetchPacket_write_bytes length_int32_bytes min_pad parseInt_int32_bytes_range)

lemma FetchPacket_write_frame:
  "frame_lengthField (FetchPacket_write fc (new_FetchPacket ci) [] q) = Some 38"
  "length (frame_body (FetchPacket_write fc (new_FetchPacket ci) [] q)) = 38"
  "frame_casInfo (FetchPacket_write fc (new_FetchPacket ci) [] q) = take 4 (ci @ replicate 4 0)"
  by (simp_all add: frame_lengthField_def frame_body_def frame_casInfo_def
      length_FetchPacket_write)
     (simp_all add: FetchPacket_write_bytes parseInt_int32_bytes_range length_int32_bytes)

subsection \<open>The error tail of a response\<close>

lemma FetchPacket_parse_negative:
  assumes "length ci = 4" and "rc < 0" and "- (2 ^ 31) \<le> rc"
    and "- (2 ^ 31) \<le> ec" and "ec < 2 ^ 31"
    and "0 \<notin> set msg" and "int (length msg) + 9 < 2 ^ 31"
  shows "FetchPacket_parse gd this
           (int32_bytes (int (length msg) + 9) @ ci @ int32_bytes rc @ int32_bytes ec @ msg @ [0]) q
         = Some (this\<lparr>casInfo := ci, responseCode := rc, errorCode := ec,
                       errorMsg := (if msg = [] then resolveErrorCode ec
                                    else Some (map (\<lambda>b. char_of (unat b)) msg))\<rparr>, None)"
proof -
  have 1: "parseInt (int32_bytes (int (length msg) + 9) @ ci @ int32_bytes rc @ int32_bytes ec @ msg @ [0])
      = Some (int (length msg) + 9, ci @ int32_bytes rc @ int32_bytes ec @ msg @ [0])"
    using assms(7) by (intro parseInt_int32_bytes_range) simp_all
  have 2: "parseBytes CAS_INFO_SIZE (ci @ int32_bytes rc @ int32_bytes ec @ msg @ [0])
      = Some (ci, int32_bytes rc @ int32_bytes ec @ msg @ [0])"
    using assms(1) by (intro parseBytes_exact) (simp add: sizes)
  have 3: "parseInt (int32_bytes rc @ int32_bytes ec @ msg @ [0])
      = Some (rc, int32_bytes ec @ msg @ [0])"
    using assms(2,3) by (intro parseInt_int32_bytes_range) simp_all
  have 4: "parseInt (int32_bytes ec @ msg @ [0]) = Some (ec, msg @ [0])"
    using assms(4,5) by (intro parseInt_int32_bytes_range)
  have 5: "parseNullTerminatedString (int (length msg) + 9 - 2 * INT_SIZEOF) (msg @ [0])
      = Some (map (\<lambda>b. char_of (unat b)) msg, [])"
    using parse_message [OF assms(6), of "[]"] by (simp add: sizes add.commute)
  show ?thesis
    unfolding FetchPacket_parse_def using assms(2) by (simp add: 1 2 3 4 5)
qed

lemma FetchPacket_parse_fields:
  assumes "FetchPacket_parse gd this parser q = Some (p, res)"
  shows "responseCode p \<noteq> 0 \<Longrightarrow> res = None"
    and "responseCode p \<noteq> 0 \<Longrightarrow> tupleCount p = tupleCount this"
    and "res \<noteq> None \<or> tupleCount p \<noteq> tupleCount this \<Longrightarrow> responseCode p = 0"
  using assms
  by (auto simp add: FetchPacket_parse_def split: Option.bind_splits if_splits)

lemma readError_message:
  assumes "- (2 ^ 31) \<le> ec" and "ec < 2 ^ 31" and "0 \<notin> set msg"
  shows "readError (int (length msg) + 9) (int32_bytes ec @ msg @ [0])
     = Some (ServerError ec (if msg = [] then resolveErrorCode ec
                             else Some (map (\<lambda>b. char_of (unat b)) msg)))"
proof -
  have 4: "parseInt (int32_bytes ec @ msg @ [0]) = Some (ec, msg @ [0])"
    using assms(1,2) by (intro parseInt_int32_bytes_range)
  have 5: "parseNullTerminatedString (int (length msg) + 9 - 2 * INT_SIZEOF) (msg @ [0])
      = Some (map (\<lambda>b. char_of (unat b)) msg, [])"
    using parse_message [OF assms(3), of "[]"] by (simp add: sizes add.commute)
  show ?thesis
    unfolding readError_def by (simp add: 4 5)
qed

lemma OpenDatabasePacket_parse_negative:
  assumes "length ci = 4" and "rc < 0" and "- (2 ^ 31) \<le> rc"
    and "- (2 ^ 31) \<le> ec" and "ec < 2 ^ 31"
    and "0 \<notin> set msg" and "int (length msg) + 9 < 2 ^ 31"
  shows "OpenDatabasePacket_parse gpv this
           (int32_bytes (int (length msg) + 9) @ ci @ int32_bytes rc @ int32_bytes ec @ msg @ [0])
         = Some (this\<lparr>casInfo := ci, responseCode := rc\<rparr>,
                 Err (ServerError ec (if msg = [] then resolveErrorCode ec
                                      else Some (map (\<lambda>b. char_of (unat b)) msg))))"
proof -
  have 1: "parseInt (int32_bytes (int (length msg) + 9) @ ci @ int32_bytes rc @ int32_bytes ec @ msg @ [0])
      = Some (int (length msg) + 9, ci @ int32_bytes rc @ int32_bytes ec @ msg @ [0])"
    using assms(7) by (intro parseInt_int32_bytes_range) simp_all
  have 2: "parseBytes CAS_INFO_SIZE (ci @ int32_bytes rc @ int32_bytes ec @ msg @ [0])
      = Some (ci, int32_bytes rc @ int32_bytes ec @ msg @ [0])"
    using assms(1) by (intro parseBytes_exact) (simp add: sizes)
  have 3: "parseInt (int32_bytes rc @ int32_bytes ec @ msg @ [0])
      = Some (rc, int32_bytes ec @ msg @ [0])"
    using assms(2,3) by (intro parseInt_int32_bytes_range) simp_all
  show ?thesis
    unfolding OpenDatabasePacket_parse_def using assms(2)
    by (simp add: 1 2 3 readError_message [OF assms(4,5,6)])
qed

lemma OpenDatabasePacket_parse_fields:
  assumes "OpenDatabasePacket_parse gpv this parser = Some (p, res)"
  shows "responseCode p < 0 \<Longrightarrow> brokerInfo p = brokerInfo this"
    and "responseCode p < 0 \<Longrightarrow> sessionId p = sessionId this"
    and "brokerInfo p \<noteq> brokerInfo this \<or> sessionId p \<noteq> sessionId this
           \<Longrightarrow> 0 \<le> responseCode p"
  using assms
  by (auto simp add: OpenDatabasePacket_parse_def split: Option.bind_splits if_splits)

lemma OpenDatabasePacket_parse_frozen:
  assumes "OpenDatabasePacket_parse gpv this parser = Some (p, res) \<and> 0 \<le> responseCode p"
  shows "brokerInfo p \<noteq> None" and "frozen (the (brokerInfo p))"
  using assms
  by (auto simp add: OpenDatabasePacket_parse_def Object_freeze_def
      split: Option.bind_splits if_splits)

lemma int32_bytes_minus_1: "int32_bytes (- 1) = [255, 255, 255, 255]"
  by code_simp

lemma int32_bytes_minus_1012: "int32_bytes (- 1012) = [255, 255, 252, 12]"
  by code_simp

lemma resolveErrorCode_no_more_data: "resolveErrorCode (- 1012) = Some ''CAS_ER_NO_MORE_DATA''"
  by (simp add: resolveErrorCode_def CASErrorMsgId_def)

lemma resolveErrorCode_table:
  assumes "resolveErrorCode ec = Some name"
  shows "(name, ec) \<in> set CASErrorMsgId"
proof -
  from assms obtain e where e: "find (\<lambda>e. snd e = ec) CASErrorMsgId = Some e" "fst e = name"
    by (auto simp add: resolveErrorCode_def)
  from e(1) have "e \<in> set CASErrorMsgId" "snd e = ec"
    by (auto simp add: find_Some_iff)
  with e(2) show ?thesis
    by (cases e) simp
qed

subsection \<open>Reading a request back\<close>

lemma OpenDatabasePacket_write_bytes:
  "OpenDatabasePacket_write (new_OpenDatabasePacket opts) [] =
     writeFixedLengthString (database opts) 0 32 [] @
     writeFixedLengthString (user opts) 0 32 [] @
     writeFixedLengthString (password opts) 0 32 [] @ replicate 532 0"
  by (simp add: OpenDatabasePacket_write_def new_OpenDatabasePacket_def
      writeFixedLengthString_def writeFiller_def replicate_add [symmetric]
      del: replicate_add take_append)

lemma fetch_read_back:
  assumes "length ci = 4" and "0 \<le> fc" and "fc < 256"
    and "- (2 ^ 31) \<le> handle q" and "handle q < 2 ^ 31"
    and "- (2 ^ 31) \<le> currentTupleCount q + 1" and "currentTupleCount q + 1 < 2 ^ 31"
  shows "do {
        (len, r1) \<leftarrow> parseInt (FetchPacket_write fc (new_FetchPacket ci) [] q);
        (ci', r2) \<leftarrow> parseBytes CAS_INFO_SIZE r1;
        (fc', r3) \<leftarrow> parseByte r2;
        (n1, r4) \<leftarrow> parseInt r3;
        (h, r5) \<leftarrow> parseInt r4;
        (n2, r6) \<leftarrow> parseInt r5;
        (start, r7) \<leftarrow> parseInt r6;
        (n3, r8) \<leftarrow> parseInt r7;
        (fetchSize, r9) \<leftarrow> parseInt r8;
        Some (len, ci', fc', h, start, fetchSize)
      } = Some (38, ci, fc, handle q, currentTupleCount q + 1, 100)"
  using assms
  by (simp add: FetchPacket_write_bytes parseInt_int32_bytes_range parseBytes_def
      parseByte_writeByte sizes)

lemma open_read_back:
  assumes "CHR 0x00 \<notin> set (database opts)" and "length (database opts) \<le> 32"
    and "CHR 0x00 \<notin> set (user opts)" and "length (user opts) \<le> 32"
    and "CHR 0x00 \<notin> set (password opts)" and "length (password opts) \<le> 32"
  shows "do {
        (db, r1) \<leftarrow> parseNullTerminatedString 32
                       (OpenDatabasePacket_write (new_OpenDatabasePacket opts) []);
        (usr, r2) \<leftarrow> parseNullTerminatedString 32 r1;
        (pw, r3) \<leftarrow> parseNullTerminatedString 32 r2;
        Some (db, usr, pw, r3)
      } = Some (database opts, user opts, password opts, replicate 532 0)"
  using assms by (simp add: OpenDatabasePacket_write_bytes parse_fixed_string)

section \<open>Properties of \<open>fetch\<close>\<close>

lemma handleIndex_None: "handleIndex h qs = None \<longleftrightarrow> h \<notin> handle ` set qs"
  by (induction qs) auto

lemma handleIndex_find:
  "find (\<lambda>q. handle q = h) qs = Some q \<Longrightarrow> \<exists>i. handleIndex h qs = Some i \<and> qs ! i = q"
  by (induction qs) (auto split: if_splits)

lemma fetch_not_found:
  assumes "h \<notin> handle ` set (queriesHandleList s)"
  shows "written (fetch C h (Some user_callback) s) = written s"
    and "trace (fetch C h (Some user_callback) s)
           = trace s @ [Emit EVENT_ERROR [Err ERROR_NO_ACTIVE_QUERY],
                        Callback [Err ERROR_NO_ACTIVE_QUERY, Null]]"
  using assms
  by (simp_all add: fetch_def Let_def handleIndex_None [symmetric] socket_on_def
      removeAllListeners_def emitEvent_def emit_def call_def user_callback_def is_err_def)

lemma fetch_done:
  assumes "find (\<lambda>q. handle q = h) (queriesHandleList s) = Some q"
    and "currentTupleCount q = totalTupleCount q"
  shows "written (fetch C h (Some user_callback) s) = written s"
    and "trace (fetch C h (Some user_callback) s)
           = trace s @ [Emit EVENT_FETCH_NO_MORE_DATA_AVAILABLE [], Callback [Null, Null]]"
proof -
  from handleIndex_find [OF assms(1)] obtain i
    where i: "handleIndex h (queriesHandleList s) = Some i" "queriesHandleList s ! i = q"
    by blast
  show "written (fetch C h (Some user_callback) s) = written s"
    using i assms(2)
    by (simp add: fetch_def Let_def socket_on_def removeAllListeners_def emitEvent_def
        emit_def call_def user_callback_def is_err_def)
  show "trace (fetch C h (Some user_callback) s)
           = trace s @ [Emit EVENT_FETCH_NO_MORE_DATA_AVAILABLE [], Callback [Null, Null]]"
    using i assms(2)
    by (simp add: fetch_def Let_def socket_on_def removeAllListeners_def emitEvent_def
        emit_def call_def user_callback_def is_err_def)
qed

lemma fetch_more:
  assumes "find (\<lambda>q. handle q = h) (queriesHandleList s) = Some q"
    and "currentTupleCount q \<noteq> totalTupleCount q"
  shows "written (fetch C h callback s)
           = written s @ [FetchPacket_write (CAS_FC_FETCH C) (new_FetchPacket (CASInfo s)) [] q]"
    and "trace (fetch C h callback s) = trace s"
proof -
  from handleIndex_find [OF assms(1)] obtain i
    where i: "handleIndex h (queriesHandleList s) = Some i" "queriesHandleList s ! i = q"
    by blast
  show "written (fetch C h callback s)
           = written s @ [FetchPacket_write (CAS_FC_FETCH C) (new_FetchPacket (CASInfo s)) [] q]"
    using i assms(2) by (simp add: fetch_def Let_def socket_on_def socket_write_def)
  show "trace (fetch C h callback s) = trace s"
    using i assms(2) by (simp add: fetch_def Let_def socket_on_def socket_write_def)
qed

section \<open>Claims about the codec and the packets\<close>

text \<open>
  Claim C3. For every call \<open>fetch(h)\<close>: if no handle in the session's handle list has
  identity \<open>h\<close>, the call fails with the no-active-query error (error event, callback
  with the error and a null result) and writes nothing to the socket; if the handle
  found has \<open>current = total\<close>, the call completes with the end-of-stream marker (the
  fetch-done event, callback with null error and null result) and writes nothing;
  otherwise it writes exactly one buffer, the fetch packet of the handle found, whose
  start position field (bytes 21 to 24) holds \<open>current + 1\<close> and whose fetch-size field
  (bytes 29 to 32) holds 100, and nothing is reported to the caller yet. The fields are
  32-bit big-endian: read back as a signed int the start position is \<open>current + 1\<close>
  whenever that fits 32 bits.
\<close>

theorem fetch_cases:
  "(h \<notin> handle ` set (queriesHandleList s) \<longrightarrow>
      written (fetch C h (Some user_callback) s) = written s \<and>
      trace (fetch C h (Some user_callback) s)
        = trace s @ [Emit EVENT_ERROR [Err ERROR_NO_ACTIVE_QUERY],
                     Callback [Err ERROR_NO_ACTIVE_QUERY, Null]])
   \<and> (find (\<lambda>q. handle q = h) (queriesHandleList s) = Some q
        \<and> currentTupleCount q = totalTupleCount q \<longrightarrow>
      written (fetch C h (Some user_callback) s) = written s \<and>
      trace (fetch C h (Some user_callback) s)
        = trace s @ [Emit EVENT_FETCH_NO_MORE_DATA_AVAILABLE [], Callback [Null, Null]])
   \<and> (find (\<lambda>q. handle q = h) (queriesHandleList s) = Some q
        \<and> currentTupleCount q \<noteq> totalTupleCount q \<longrightarrow>
      (\<exists>pkt. written (fetch C h (Some user_callback) s) = written s @ [pkt]
         \<and> pkt = FetchPacket_write (CAS_FC_FETCH C) (new_FetchPacket (CASInfo s)) [] q
         \<and> take 4 (drop 21 pkt) = int32_bytes (currentTupleCount q + 1)
         \<and> take 4 (drop 29 pkt) = int32_bytes 100
         \<and> parseInt (drop 29 pkt) = Some (100, drop 33 pkt)
         \<and> (- (2 ^ 31) \<le> currentTupleCount q + 1 \<and> currentTupleCount q + 1 < 2 ^ 31 \<longrightarrow>
              parseInt (drop 21 pkt) = Some (currentTupleCount q + 1, drop 25 pkt)))
      \<and> trace (fetch C h (Some user_callback) s) = trace s)"
proof (intro conjI impI)
  assume "h \<notin> handle ` set (queriesHandleList s)"
  then show "written (fetch C h (Some user_callback) s) = written s"
    and "trace (fetch C h (Some user_callback) s)
        = trace s @ [Emit EVENT_ERROR [Err ERROR_NO_ACTIVE_QUERY],
                     Callback [Err ERROR_NO_ACTIVE_QUERY, Null]]"
    by (rule fetch_not_found)+
next
  assume "find (\<lambda>q. handle q = h) (queriesHandleList s) = Some q
        \<and> currentTupleCount q = totalTupleCount q"
  then show "written (fetch C h (Some user_callback) s) = written s"
    and "trace (fetch C h (Some user_callback) s)
        = trace s @ [Emit EVENT_FETCH_NO_MORE_DATA_AVAILABLE [], Callback [Null, Null]]"
    by (simp_all add: fetch_done)
next
  assume a: "find (\<lambda>q. handle q = h) (queriesHandleList s) = Some q
        \<and> currentTupleCount q \<noteq> totalTupleCount q"
  then show "trace (fetch C h (Some user_callback) s) = trace s"
    by (simp add: fetch_more)
  let ?pkt = "FetchPacket_write (CAS_FC_FETCH C) (new_FetchPacket (CASInfo s)) [] q"
  have "written (fetch C h (Some user_callback) s) = written s @ [?pkt]"
    using a by (simp add: fetch_more)
  moreover have "take 4 (drop 21 ?pkt) = int32_bytes (currentTupleCount q + 1)"
    by (rule FetchPacket_write_start)
  moreover have "take 4 (drop 29 ?pkt) = int32_bytes 100"
    by (rule FetchPacket_write_size)
  moreover have "parseInt (drop 29 ?pkt) = Some (100, drop 33 ?pkt)"
    by (rule parseInt_size)
  moreover have "- (2 ^ 31) \<le> currentTupleCount q + 1 \<and> currentTupleCount q + 1 < 2 ^ 31 \<longrightarrow>
      parseInt (drop 21 ?pkt) = Some (currentTupleCount q + 1, drop 25 ?pkt)"
    using parseInt_start_range by blast
  ultimately show "\<exists>pkt. written (fetch C h (Some user_callback) s) = written s @ [pkt]
         \<and> pkt = ?pkt
         \<and> take 4 (drop 21 pkt) = int32_bytes (currentTupleCount q + 1)
         \<and> take 4 (drop 29 pkt) = int32_bytes 100
         \<and> parseInt (drop 29 pkt) = Some (100, drop 33 pkt)
         \<and> (- (2 ^ 31) \<le> currentTupleCount q + 1 \<and> currentTupleCount q + 1 < 2 ^ 31 \<longrightarrow>
              parseInt (drop 21 pkt) = Some (currentTupleCount q + 1, drop 25 pkt))"
    by blast
qed

text \<open>
  The three cases on the session that holds the handles 9 (read to the end) and 42
  (100 of 250 read): handle 7 is unknown, handle 9 is at the end of its stream, and
  for handle 42 the packet asks for 100 tuples from position 101.
\<close>

theorem fetch_cases_witness:
  "7 \<notin> handle ` set (queriesHandleList busy_session)
   \<and> trace (fetch sample_collaborators 7 (Some user_callback) busy_session)
       = [Emit EVENT_ERROR [Err ERROR_NO_ACTIVE_QUERY], Callback [Err ERROR_NO_ACTIVE_QUERY, Null]]
   \<and> written (fetch sample_collaborators 7 (Some user_callback) busy_session) = []
   \<and> find (\<lambda>q. handle q = 9) (queriesHandleList busy_session) = Some handle9
   \<and> currentTupleCount handle9 = totalTupleCount handle9
   \<and> trace (fetch sample_collaborators 9 (Some user_callback) busy_session)
       = [Emit EVENT_FETCH_NO_MORE_DATA_AVAILABLE [], Callback [Null, Null]]
   \<and> written (fetch sample_collaborators 9 (Some user_callback) busy_session) = []
   \<and> find (\<lambda>q. handle q = 42) (queriesHandleList busy_session) = Some handle42
   \<and> currentTupleCount handle42 \<noteq> totalTupleCount handle42
   \<and> (\<exists>pkt. written (fetch sample_collaborators 42 (Some user_callback) busy_session) = [pkt]
         \<and> take 4 (drop 21 pkt) = [0, 0, 0, 101] \<and> take 4 (drop 29 pkt) = [0, 0, 0, 100]
         \<and> parseInt (drop 21 pkt) = Some (101, drop 25 pkt))
   \<and> trace (fetch sample_collaborators 42 (Some user_callback) busy_session) = []"
  using fetch_cases [of 7 busy_session sample_collaborators handle42]
    fetch_cases [of 9 busy_session sample_collaborators handle9]
    fetch_cases [of 42 busy_session sample_collaborators handle42]
  by (simp add: busy_session_def open_session_def new_session_def handle42_def handle9_def
      CUBRIDConnection_def int32_bytes_def)

text \<open>
  Claim C4, as amended. Every fetch request that the encoder produces has a length
  field equal to the number of body bytes that follow the 4-byte CAS info, 38, counting
  neither the length field nor the CAS info, and so has the close-database request of
  the first scenario (1). The decoders read the length field and do not compare it with
  the bytes that follow: the two response vectors carry the length fields 0 and 15 in
  front of 4 and 16 body bytes, and the open-database response decodes to the fields
  the scenario lists all the same.
\<close>

theorem request_length_field:
  "frame_lengthField (FetchPacket_write fc (new_FetchPacket ci) [] q) = Some 38
   \<and> length (frame_body (FetchPacket_write fc (new_FetchPacket ci) [] q)) = 38
   \<and> frame_casInfo (FetchPacket_write fc (new_FetchPacket ci) [] q) = take 4 (ci @ replicate 4 0)
   \<and> frame_lengthField close_database_request = Some 1
   \<and> length (frame_body close_database_request) = 1
   \<and> frame_lengthField close_database_response = Some 0
   \<and> length (frame_body close_database_response) = 4
   \<and> frame_lengthField open_database_response = Some 15
   \<and> length (frame_body open_database_response) = 16
   \<and> OpenDatabasePacket_parse gpv (new_OpenDatabasePacket opts) open_database_response
       = Some (\<lparr>casInfo = [0, 255, 255, 255], responseCode = 0, options = opts,
                brokerInfo = Some (Object \<lparr>dbType = 5, protocolVersion = gpv 5,
                                                  statementPolling = 5\<rparr> True),
                sessionId = Some 3\<rparr>, Undefined)"
proof -
  have "frame_lengthField close_database_request = Some 1"
    "length (frame_body close_database_request) = 1"
    "frame_lengthField close_database_response = Some 0"
    "length (frame_body close_database_response) = 4"
    "frame_lengthField open_database_response = Some 15"
    "length (frame_body open_database_response) = 16"
    by (simp_all add: frame_lengthField_def frame_body_def close_database_request_def
        close_database_response_def open_database_response_def parseInt_def be32_def)
  moreover have "OpenDatabasePacket_parse gpv (new_OpenDatabasePacket opts) open_database_response
       = Some (\<lparr>casInfo = [0, 255, 255, 255], responseCode = 0, options = opts,
                brokerInfo = Some (Object \<lparr>dbType = 5, protocolVersion = gpv 5,
                                                  statementPolling = 5\<rparr> True),
                sessionId = Some 3\<rparr>, Undefined)"
    by (simp add: OpenDatabasePacket_parse_def new_OpenDatabasePacket_def Object_freeze_def
        objectLiteral_def open_database_response_def parseInt_def parseBytes_def be32_def sizes)
  ultimately show ?thesis
    using FetchPacket_write_frame [of fc ci q] by simp
qed

text \<open>
  Claim C4 as stated fails on the decoded responses: the open-database response of the
  second scenario is decoded (to session id 3), and its length field, 15, is not the
  number of bytes that follow the CAS info, 16.
\<close>

theorem frame_length_counterexample:
  "map_option (sessionId \<circ> fst)
      (OpenDatabasePacket_parse uint (new_OpenDatabasePacket test_options) open_database_response)
     = Some (Some 3)
   \<and> frame_lengthField open_database_response
       \<noteq> Some (int (length (frame_body open_database_response)))"
  by (simp add: OpenDatabasePacket_parse_def new_OpenDatabasePacket_def
      open_database_response_def parseInt_def parseBytes_def be32_def sizes
      frame_lengthField_def frame_body_def)

text \<open>
  Claim C5. Parsing the open-database response
  \<open>00 00 00 0F | 00 FF FF FF | 00 00 00 00 | 05 05 05 05 05 05 05 05 | 00 00 00 03\<close>
  yields \<open>casInfo = [0, 255, 255, 255]\<close>, \<open>responseCode = 0\<close>, a broker-info record
  with \<open>dbType = 5\<close> (byte 0), \<open>statementPolling\<close> taken from byte 2 and
  \<open>protocolVersion\<close> derived from byte 4 by \<open>getProtocolVersion\<close>, and
  \<open>sessionId = 3\<close>; no value is returned. With any eight bytes of broker
  information in that response the record holds byte 0, the version of byte 4 and
  byte 2. The broker-info record is immutable after the handshake: whenever
  \<open>parse\<close> has read a response code that is not negative, the broker information of
  the packet is an object frozen by \<open>Object.freeze\<close>, and an assignment to any of its
  properties leaves the object as it is, throwing when the assigning code is strict.
\<close>

theorem OpenDatabasePacket_parse_response:
  "OpenDatabasePacket_parse gpv (new_OpenDatabasePacket opts)
      [0, 0, 0, 0x0F, 0, 0xFF, 0xFF, 0xFF, 0, 0, 0, 0, 5, 5, 5, 5, 5, 5, 5, 5, 0, 0, 0, 3]
     = Some (\<lparr>casInfo = [0, 255, 255, 255], responseCode = 0, options = opts,
              brokerInfo = Some (Object \<lparr>dbType = 5, protocolVersion = gpv 5,
                                          statementPolling = 5\<rparr> True),
              sessionId = Some 3\<rparr>, Undefined)
   \<and> OpenDatabasePacket_parse gpv (new_OpenDatabasePacket opts)
      ([0, 0, 0, 0x0F, 0, 0xFF, 0xFF, 0xFF, 0, 0, 0, 0]
         @ [b0, b1, b2, b3, b4, b5, b6, b7] @ [0, 0, 0, 3])
     = Some (\<lparr>casInfo = [0, 255, 255, 255], responseCode = 0, options = opts,
              brokerInfo = Some (Object \<lparr>dbType = b0, protocolVersion = gpv b4,
                                          statementPolling = b2\<rparr> True),
              sessionId = Some 3\<rparr>, Undefined)
   \<and> (OpenDatabasePacket_parse gpv this parser = Some (p, res) \<and> 0 \<le> responseCode p \<longrightarrow>
        brokerInfo p \<noteq> None
        \<and> frozen (the (brokerInfo p))
        \<and> assignProperty strict update (the (brokerInfo p)) = (the (brokerInfo p), strict))"
proof (intro conjI impI)
  show "OpenDatabasePacket_parse gpv (new_OpenDatabasePacket opts)
      [0, 0, 0, 0x0F, 0, 0xFF, 0xFF, 0xFF, 0, 0, 0, 0, 5, 5, 5, 5, 5, 5, 5, 5, 0, 0, 0, 3]
     = Some (\<lparr>casInfo = [0, 255, 255, 255], responseCode = 0, options = opts,
              brokerInfo = Some (Object \<lparr>dbType = 5, protocolVersion = gpv 5,
                                          statementPolling = 5\<rparr> True),
              sessionId = Some 3\<rparr>, Undefined)"
    by (simp add: OpenDatabasePacket_parse_def new_OpenDatabasePacket_def Object_freeze_def
        objectLiteral_def parseInt_def parseBytes_def be32_def sizes)
next
  show "OpenDatabasePacket_parse gpv (new_OpenDatabasePacket opts)
      ([0, 0, 0, 0x0F, 0, 0xFF, 0xFF, 0xFF, 0, 0, 0, 0]
         @ [b0, b1, b2, b3, b4, b5, b6, b7] @ [0, 0, 0, 3])
     = Some (\<lparr>casInfo = [0, 255, 255, 255], responseCode = 0, options = opts,
              brokerInfo = Some (Object \<lparr>dbType = b0, protocolVersion = gpv b4,
                                          statementPolling = b2\<rparr> True),
              sessionId = Some 3\<rparr>, Undefined)"
    by (simp add: OpenDatabasePacket_parse_def new_OpenDatabasePacket_def Object_freeze_def
        objectLiteral_def parseInt_def parseBytes_def be32_def sizes)
next
  assume a: "OpenDatabasePacket_parse gpv this parser = Some (p, res) \<and> 0 \<le> responseCode p"
  then show "brokerInfo p \<noteq> None"
    by (rule OpenDatabasePacket_parse_frozen(1))
  from a show fr: "frozen (the (brokerInfo p))"
    by (rule OpenDatabasePacket_parse_frozen(2))
  from fr show "assignProperty strict update (the (brokerInfo p)) = (the (brokerInfo p), strict)"
    by (simp add: assignProperty_def)
qed

text \<open>
  The response of the test: its broker information is frozen, and the assignments
  \<open>brokerInfo.dbType = 1\<close> in strict code, which throws, and
  \<open>brokerInfo.protocolVersion = 0\<close> in code that is not strict leave it as it is.
\<close>

theorem OpenDatabasePacket_parse_response_witness:
  "OpenDatabasePacket_parse uint (new_OpenDatabasePacket test_options) open_database_response
     = Some (\<lparr>casInfo = [0, 255, 255, 255], responseCode = 0, options = test_options,
              brokerInfo = Some (Object \<lparr>dbType = 5, protocolVersion = 5,
                                          statementPolling = 5\<rparr> True),
              sessionId = Some 3\<rparr>, Undefined)
   \<and> assignProperty True (dbType_update (\<lambda>v. 1))
        (Object \<lparr>dbType = 5, protocolVersion = 5, statementPolling = 5\<rparr> True)
       = (Object \<lparr>dbType = 5, protocolVersion = 5, statementPolling = 5\<rparr> True, True)
   \<and> assignProperty False (protocolVersion_update (\<lambda>v. 0))
        (Object \<lparr>dbType = 5, protocolVersion = 5, statementPolling = 5\<rparr> True)
       = (Object \<lparr>dbType = 5, protocolVersion = 5, statementPolling = 5\<rparr> True, False)"
proof -
  let ?p = "\<lparr>casInfo = [0, 255, 255, 255], responseCode = 0, options = test_options,
              brokerInfo = Some (Object \<lparr>dbType = 5, protocolVersion = 5,
                                          statementPolling = 5\<rparr> True),
              sessionId = Some 3\<rparr>"
  have od: "OpenDatabasePacket_parse uint (new_OpenDatabasePacket test_options)
      open_database_response = Some (?p, Undefined)"
    using OpenDatabasePacket_parse_response [where gpv = uint and opts = test_options,
        THEN conjunct1]
    by (simp add: open_database_response_def)
  have 1: "assignProperty True (dbType_update (\<lambda>v. 1))
        (Object \<lparr>dbType = 5, protocolVersion = 5, statementPolling = 5\<rparr> True)
       = (Object \<lparr>dbType = 5, protocolVersion = 5, statementPolling = 5\<rparr> True, True)"
    using OpenDatabasePacket_parse_response [where gpv = uint
        and this = "new_OpenDatabasePacket test_options" and parser = open_database_response
        and p = ?p and res = Undefined and strict = True
        and update = "dbType_update (\<lambda>v. 1)",
        THEN conjunct2, THEN conjunct2] od
    by simp
  have 2: "assignProperty False (protocolVersion_update (\<lambda>v. 0))
        (Object \<lparr>dbType = 5, protocolVersion = 5, statementPolling = 5\<rparr> True)
       = (Object \<lparr>dbType = 5, protocolVersion = 5, statementPolling = 5\<rparr> True, False)"
    using OpenDatabasePacket_parse_response [where gpv = uint
        and this = "new_OpenDatabasePacket test_options" and parser = open_database_response
        and p = ?p and res = Undefined and strict = False
        and update = "protocolVersion_update (\<lambda>v. 0)",
        THEN conjunct2, THEN conjunct2] od
    by simp
  from od 1 2 show ?thesis
    by simp
qed

text \<open>
  Claim C6. For every response in which a negative response code is followed by a
  4-byte error code and a null-terminated error message, the decoders of the fetch
  packet and of the open-database packet read exactly these: the error code, and the
  message, for which the name found in the error-code table is substituted when it is
  empty; no per-packet field is set and no result is returned. Conversely a decoder that
  has exposed per-packet fields (the tuple count and the rows; the broker information
  and the session id) has read a response code that is not negative; the fetch decoder
  exposes them for the code 0 only. Error code \<open>-1012\<close> resolves to
  \<open>CAS_ER_NO_MORE_DATA\<close>, and every name resolved stands next to its code in the
  table.
\<close>

theorem decoder_error_tail:
  "(length ci = 4 \<and> rc < 0 \<and> - (2 ^ 31) \<le> rc \<and> - (2 ^ 31) \<le> ec \<and> ec < 2 ^ 31
      \<and> 0 \<notin> set msg \<and> int (length msg) + 9 < 2 ^ 31 \<longrightarrow>
      FetchPacket_parse gd this
          (int32_bytes (int (length msg) + 9) @ ci @ int32_bytes rc @ int32_bytes ec @ msg @ [0]) q
        = Some (this\<lparr>casInfo := ci, responseCode := rc, errorCode := ec,
                      errorMsg := (if msg = [] then resolveErrorCode ec
                                   else Some (map (\<lambda>b. char_of (unat b)) msg))\<rparr>, None)
      \<and> OpenDatabasePacket_parse gpv that
          (int32_bytes (int (length msg) + 9) @ ci @ int32_bytes rc @ int32_bytes ec @ msg @ [0])
        = Some (that\<lparr>casInfo := ci, responseCode := rc\<rparr>,
                Err (ServerError ec (if msg = [] then resolveErrorCode ec
                                     else Some (map (\<lambda>b. char_of (unat b)) msg)))))
   \<and> (FetchPacket_parse gd this parser q = Some (p, res) \<longrightarrow>
        (responseCode p < 0 \<longrightarrow> res = None \<and> tupleCount p = tupleCount this)
        \<and> (res \<noteq> None \<or> tupleCount p \<noteq> tupleCount this \<longrightarrow> responseCode p = 0))
   \<and> (OpenDatabasePacket_parse gpv that parser' = Some (p', res') \<longrightarrow>
        (responseCode p' < 0 \<longrightarrow> brokerInfo p' = brokerInfo that \<and> sessionId p' = sessionId that)
        \<and> (brokerInfo p' \<noteq> brokerInfo that \<or> sessionId p' \<noteq> sessionId that
              \<longrightarrow> 0 \<le> responseCode p'))
   \<and> resolveErrorCode (- 1012) = Some ''CAS_ER_NO_MORE_DATA''
   \<and> (resolveErrorCode ec' = Some name \<longrightarrow> (name, ec') \<in> set CASErrorMsgId)"
proof (intro conjI impI)
  assume a: "length ci = 4 \<and> rc < 0 \<and> - (2 ^ 31) \<le> rc \<and> - (2 ^ 31) \<le> ec \<and> ec < 2 ^ 31
      \<and> 0 \<notin> set msg \<and> int (length msg) + 9 < 2 ^ 31"
  then show "FetchPacket_parse gd this
          (int32_bytes (int (length msg) + 9) @ ci @ int32_bytes rc @ int32_bytes ec @ msg @ [0]) q
        = Some (this\<lparr>casInfo := ci, responseCode := rc, errorCode := ec,
                      errorMsg := (if msg = [] then resolveErrorCode ec
                                   else Some (map (\<lambda>b. char_of (unat b)) msg))\<rparr>, None)"
    by (intro FetchPacket_parse_negative) simp_all
  from a show "OpenDatabasePacket_parse gpv that
          (int32_bytes (int (length msg) + 9) @ ci @ int32_bytes rc @ int32_bytes ec @ msg @ [0])
        = Some (that\<lparr>casInfo := ci, responseCode := rc\<rparr>,
                Err (ServerError ec (if msg = [] then resolveErrorCode ec
                                     else Some (map (\<lambda>b. char_of (unat b)) msg))))"
    by (intro OpenDatabasePacket_parse_negative) simp_all
next
  assume a: "FetchPacket_parse gd this parser q = Some (p, res)"
  {
    assume "responseCode p < 0"
    then have nz: "responseCode p \<noteq> 0"
      by simp
    show "res = None"
      using nz by (rule FetchPacket_parse_fields(1) [OF a])
    show "tupleCount p = tupleCount this"
      using nz by (rule FetchPacket_parse_fields(2) [OF a])
  }
  {
    assume "res \<noteq> None \<or> tupleCount p \<noteq> tupleCount this"
    then show "responseCode p = 0"
      by (rule FetchPacket_parse_fields(3) [OF a])
  }
next
  assume a: "OpenDatabasePacket_parse gpv that parser' = Some (p', res')"
  {
    assume neg: "responseCode p' < 0"
    show "brokerInfo p' = brokerInfo that"
      using neg by (rule OpenDatabasePacket_parse_fields(1) [OF a])
    show "sessionId p' = sessionId that"
      using neg by (rule OpenDatabasePacket_parse_fields(2) [OF a])
  }
  {
    assume "brokerInfo p' \<noteq> brokerInfo that \<or> sessionId p' \<noteq> sessionId that"
    then show "0 \<le> responseCode p'"
      by (rule OpenDatabasePacket_parse_fields(3) [OF a])
  }
next
  show "resolveErrorCode (- 1012) = Some ''CAS_ER_NO_MORE_DATA''"
    by (rule resolveErrorCode_no_more_data)
next
  assume "resolveErrorCode ec' = Some name"
  then show "(name, ec') \<in> set CASErrorMsgId"
    by (rule resolveErrorCode_table)
qed

text \<open>
  The response of the fourth scenario (response code \<open>-1\<close>, error code \<open>-1012\<close>,
  empty message) through both decoders; a fetch response and the open-database response
  that expose their fields, with response code 0; and the table entry of the name.
\<close>

theorem decoder_error_tail_witness:
  "FetchPacket_parse (getData sample_collaborators) (new_FetchPacket [0, 255, 255, 255])
      no_more_data_response (Some handle42)
     = Some (\<lparr>casInfo = [0, 255, 255, 255], responseCode = - 1, errorCode = - 1012,
              errorMsg = Some ''CAS_ER_NO_MORE_DATA'', tupleCount = None\<rparr>, None)
   \<and> OpenDatabasePacket_parse uint (new_OpenDatabasePacket test_options) no_more_data_response
     = Some (\<lparr>casInfo = [0, 255, 255, 255], responseCode = - 1, options = test_options,
              brokerInfo = None, sessionId = None\<rparr>,
             Err (ServerError (- 1012) (Some ''CAS_ER_NO_MORE_DATA'')))
   \<and> FetchPacket_parse (getData sample_collaborators) (new_FetchPacket [0, 255, 255, 255])
      fetch_response (Some handle42)
     = Some (\<lparr>casInfo = [0, 255, 255, 255], responseCode = 0, errorCode = 0,
              errorMsg = Some [], tupleCount = Some 2\<rparr>, Some ''[]'')
   \<and> responseCode \<lparr>casInfo = [0, 255, 255, 255], responseCode = 0, errorCode = 0,
              errorMsg = Some [], tupleCount = Some 2\<rparr> = 0
   \<and> 0 \<le> responseCode \<lparr>casInfo = [0, 255, 255, 255], responseCode = 0, options = test_options,
              brokerInfo = Some (Object \<lparr>dbType = 5, protocolVersion = 5,
                                                statementPolling = 5\<rparr> True),
              sessionId = Some 3\<rparr>
   \<and> (''CAS_ER_NO_MORE_DATA'', - 1012) \<in> set CASErrorMsgId"
proof -
  have f: "FetchPacket_parse (getData sample_collaborators) (new_FetchPacket [0, 255, 255, 255])
      fetch_response (Some handle42)
     = Some (\<lparr>casInfo = [0, 255, 255, 255], responseCode = 0, errorCode = 0,
              errorMsg = Some [], tupleCount = Some 2\<rparr>, Some ''[]'')"
    by (simp add: FetchPacket_parse_def new_FetchPacket_def fetch_response_def parseInt_def
        parseBytes_def be32_def sizes sample_collaborators_def)
  have od: "OpenDatabasePacket_parse uint (new_OpenDatabasePacket test_options) open_database_response
     = Some (\<lparr>casInfo = [0, 255, 255, 255], responseCode = 0, options = test_options,
              brokerInfo = Some (Object \<lparr>dbType = 5, protocolVersion = 5,
                                                statementPolling = 5\<rparr> True),
              sessionId = Some 3\<rparr>, Undefined)"
    by (simp add: OpenDatabasePacket_parse_def new_OpenDatabasePacket_def Object_freeze_def
        objectLiteral_def open_database_response_def parseInt_def parseBytes_def be32_def sizes)
  have 1: "FetchPacket_parse (getData sample_collaborators) (new_FetchPacket [0, 255, 255, 255])
      no_more_data_response (Some handle42)
     = Some (\<lparr>casInfo = [0, 255, 255, 255], responseCode = - 1, errorCode = - 1012,
              errorMsg = Some ''CAS_ER_NO_MORE_DATA'', tupleCount = None\<rparr>, None)
   \<and> OpenDatabasePacket_parse uint (new_OpenDatabasePacket test_options) no_more_data_response
     = Some (\<lparr>casInfo = [0, 255, 255, 255], responseCode = - 1, options = test_options,
              brokerInfo = None, sessionId = None\<rparr>,
             Err (ServerError (- 1012) (Some ''CAS_ER_NO_MORE_DATA'')))"
    using decoder_error_tail [where ci = "[0, 255, 255, 255]" and rc = "- 1" and ec = "- 1012"
      and msg = "[]" and gd = "getData sample_collaborators"
      and this = "new_FetchPacket [0, 255, 255, 255]" and q = "Some handle42"
      and gpv = uint and that = "new_OpenDatabasePacket test_options", THEN conjunct1]
    by (simp add: no_more_data_response_def int32_bytes_minus_1 int32_bytes_minus_1012
      resolveErrorCode_no_more_data)
     (simp add: int32_bytes_def new_FetchPacket_def new_OpenDatabasePacket_def)
  have 2: "responseCode \<lparr>casInfo = [0, 255, 255, 255], responseCode = 0, errorCode = 0,
              errorMsg = Some [], tupleCount = Some 2\<rparr> = 0"
    using decoder_error_tail [where gd = "getData sample_collaborators"
      and this = "new_FetchPacket [0, 255, 255, 255]" and q = "Some handle42"
      and parser = fetch_response and res = "Some ''[]''"
      and p = "\<lparr>casInfo = [0, 255, 255, 255], responseCode = 0, errorCode = 0,
              errorMsg = Some [], tupleCount = Some 2\<rparr>",
      THEN conjunct2, THEN conjunct1] f
    by simp
  have 3: "0 \<le> responseCode \<lparr>casInfo = [0, 255, 255, 255], responseCode = 0, options = test_options,
              brokerInfo = Some (Object \<lparr>dbType = 5, protocolVersion = 5,
                                                statementPolling = 5\<rparr> True),
              sessionId = Some 3\<rparr>"
    using decoder_error_tail [where gpv = uint and that = "new_OpenDatabasePacket test_options"
      and parser' = open_database_response and res' = Undefined
      and p' = "\<lparr>casInfo = [0, 255, 255, 255], responseCode = 0, options = test_options,
              brokerInfo = Some (Object \<lparr>dbType = 5, protocolVersion = 5,
                                                statementPolling = 5\<rparr> True),
              sessionId = Some 3\<rparr>",
      THEN conjunct2, THEN conjunct2, THEN conjunct1] od
    by simp
  have 4: "(''CAS_ER_NO_MORE_DATA'', - 1012) \<in> set CASErrorMsgId"
    using decoder_error_tail [where ec' = "- 1012" and name = "''CAS_ER_NO_MORE_DATA''",
      THEN conjunct2, THEN conjunct2, THEN conjunct2, THEN conjunct2]
      resolveErrorCode_no_more_data
    by blast
  from 1 f 2 3 4 show ?thesis
    by blast
qed

text \<open>
  Claim C8, as amended. For the fetch packet and the open-database packet, reading the
  buffer that the encoder produced with the reader's primitive parsers, field by field
  in the order of the writes, recovers the original field values: of the fetch packet
  the length 38, the CAS info, the function code, the handle, the start position
  \<open>current + 1\<close> and the fetch size 100 (for a 4-byte CAS info, a function code that
  is a byte, and numbers that fit 32 bits); of the open-database packet the database,
  the user and the password, each a string of at most 32 bytes without a zero byte,
  freed of its zero padding, followed by 532 filler bytes. (The decoder of a packet
  type reads the server's response, which has another layout.)
\<close>

theorem request_fields_read_back:
  "(length ci = 4 \<and> 0 \<le> fc \<and> fc < 256
      \<and> - (2 ^ 31) \<le> handle q \<and> handle q < 2 ^ 31
      \<and> - (2 ^ 31) \<le> currentTupleCount q + 1 \<and> currentTupleCount q + 1 < 2 ^ 31 \<longrightarrow>
      do {
        (len, r1) \<leftarrow> parseInt (FetchPacket_write fc (new_FetchPacket ci) [] q);
        (ci', r2) \<leftarrow> parseBytes CAS_INFO_SIZE r1;
        (fc', r3) \<leftarrow> parseByte r2;
        (n1, r4) \<leftarrow> parseInt r3;
        (h, r5) \<leftarrow> parseInt r4;
        (n2, r6) \<leftarrow> parseInt r5;
        (start, r7) \<leftarrow> parseInt r6;
        (n3, r8) \<leftarrow> parseInt r7;
        (fetchSize, r9) \<leftarrow> parseInt r8;
        Some (len, ci', fc', h, start, fetchSize)
      } = Some (38, ci, fc, handle q, currentTupleCount q + 1, 100))
   \<and> (CHR 0x00 \<notin> set (database opts) \<and> length (database opts) \<le> 32
      \<and> CHR 0x00 \<notin> set (user opts) \<and> length (user opts) \<le> 32
      \<and> CHR 0x00 \<notin> set (password opts) \<and> length (password opts) \<le> 32 \<longrightarrow>
      do {
        (db, r1) \<leftarrow> parseNullTerminatedString 32
                       (OpenDatabasePacket_write (new_OpenDatabasePacket opts) []);
        (usr, r2) \<leftarrow> parseNullTerminatedString 32 r1;
        (pw, r3) \<leftarrow> parseNullTerminatedString 32 r2;
        Some (db, usr, pw, r3)
      } = Some (database opts, user opts, password opts, replicate 532 0))"
  using fetch_read_back [of ci fc q] open_read_back [of opts] by blast

text \<open>The request for handle 42 and the open-database request of the test, read back.\<close>

theorem request_fields_read_back_witness:
  "do {
        (len, r1) \<leftarrow> parseInt (FetchPacket_write 8 (new_FetchPacket [0, 255, 255, 255]) [] handle42);
        (ci', r2) \<leftarrow> parseBytes CAS_INFO_SIZE r1;
        (fc', r3) \<leftarrow> parseByte r2;
        (n1, r4) \<leftarrow> parseInt r3;
        (h, r5) \<leftarrow> parseInt r4;
        (n2, r6) \<leftarrow> parseInt r5;
        (start, r7) \<leftarrow> parseInt r6;
        (n3, r8) \<leftarrow> parseInt r7;
        (fetchSize, r9) \<leftarrow> parseInt r8;
        Some (len, ci', fc', h, start, fetchSize)
      } = Some (38, [0, 255, 255, 255], 8, 42, 101, 100)
   \<and> do {
        (db, r1) \<leftarrow> parseNullTerminatedString 32
                       (OpenDatabasePacket_write (new_OpenDatabasePacket test_options) []);
        (usr, r2) \<leftarrow> parseNullTerminatedString 32 r1;
        (pw, r3) \<leftarrow> parseNullTerminatedString 32 r2;
        Some (db, usr, pw, r3)
      } = Some (''manager_master'', ''nsight'', ''ns0)3#ht'', replicate 532 0)"
  using request_fields_read_back [of "[0, 255, 255, 255]" 8 handle42 test_options]
  by (simp add: handle42_def test_options_def)

text \<open>
  Claim C8 as stated fails: the decoder of a packet does not recover what its encoder
  wrote. The open-database decoder reads the first 24 bytes of the encoded request, the
  start of the database name, as length, CAS info, response code, broker information
  and session id, and gives the same for another password; the fetch decoder takes the
  function code for a response code that is not 0 and reads an error, the same for
  another cursor position.
\<close>

theorem decode_encoded_request_counterexample:
  "OpenDatabasePacket_parse uint (new_OpenDatabasePacket test_options)
        (OpenDatabasePacket_write (new_OpenDatabasePacket test_options) [])
      = Some (\<lparr>casInfo = [0x67, 0x65, 0x72, 0x5F], responseCode = 1835103092,
               options = test_options,
               brokerInfo = Some (Object \<lparr>dbType = 0x65, protocolVersion = 0,
                                                 statementPolling = 0\<rparr> True),
               sessionId = Some 0\<rparr>, Undefined)
   \<and> OpenDatabasePacket_parse uint (new_OpenDatabasePacket test_options)
        (OpenDatabasePacket_write (new_OpenDatabasePacket other_options) [])
      = OpenDatabasePacket_parse uint (new_OpenDatabasePacket test_options)
        (OpenDatabasePacket_write (new_OpenDatabasePacket test_options) [])
   \<and> password other_options \<noteq> password test_options
   \<and> FetchPacket_parse (getData sample_collaborators) (new_FetchPacket [0, 255, 255, 255])
        (FetchPacket_write 8 (new_FetchPacket [0, 255, 255, 255]) [] handle42) (Some handle42)
      = Some (\<lparr>casInfo = [0, 255, 255, 255], responseCode = 134217728, errorCode = 67108864,
               errorMsg = Some ''*'', tupleCount = None\<rparr>, None)
   \<and> FetchPacket_parse (getData sample_collaborators) (new_FetchPacket [0, 255, 255, 255])
        (FetchPacket_write 8 (new_FetchPacket [0, 255, 255, 255]) []
           (handle42\<lparr>currentTupleCount := 200\<rparr>)) (Some handle42)
      = FetchPacket_parse (getData sample_collaborators) (new_FetchPacket [0, 255, 255, 255])
        (FetchPacket_write 8 (new_FetchPacket [0, 255, 255, 255]) [] handle42) (Some handle42)"
  by code_simp

section \<open>Properties of the session operations\<close>

lemmas session_simps = socket_write_def socket_on_def removeAllListeners_def createConnection_def
  emit_def emitEvent_def call_def user_callback_def is_err_def arg_def

subsection \<open>Commit and rollback\<close>











subsection \<open>Validation\<close>

lemma query_invalid:
  assumes "\<not> queryPending s" and "\<not> validateInputSQLString C sql"
  shows "query C sql (Some user_callback) s
     = s\<lparr>trace := trace s @ [Emit EVENT_ERROR [Err ERROR_INPUT_VALIDATION], Callback [Null]]\<rparr>"
  using assms by (simp add: query_def session_simps)

lemma closeQuery_invalid:
  assumes "\<not> validateInputTimeout C h"
  shows "closeQuery C h (Some user_callback) s
     = s\<lparr>trace := trace s @ [Emit EVENT_ERROR [Err ERROR_INPUT_VALIDATION], Callback [Null]]\<rparr>"
  using assms by (simp add: closeQuery_def session_simps)

subsection \<open>The auto-commit mode\<close>







subsection \<open>The pending flags\<close>





















subsection \<open>The sample responses\<close>




section \<open>Claims about the session\<close>












text \<open>
  Claim C10. When \<open>query\<close> rejects its SQL text at validation (no query being
  pending), and when \<open>closeQuery\<close> rejects its handle at validation, the validation
  error is emitted on the error event and the completion callback is called with a null
  error argument; nothing else of the session changes, and nothing is written.
\<close>

theorem validation_error_callback_null:
  "(\<not> queryPending s \<and> \<not> validateInputSQLString C sql \<longrightarrow>
      query C sql (Some user_callback) s
        = s\<lparr>trace := trace s @ [Emit EVENT_ERROR [Err ERROR_INPUT_VALIDATION], Callback [Null]]\<rparr>)
   \<and> (\<not> validateInputTimeout C h \<longrightarrow>
      closeQuery C h (Some user_callback) s
        = s\<lparr>trace := trace s @ [Emit EVENT_ERROR [Err ERROR_INPUT_VALIDATION], Callback [Null]]\<rparr>)"
  using query_invalid [of s C sql] closeQuery_invalid [of C h s] by blast

text \<open>
  An empty SQL text and the handle \<open>-1\<close> on the open sample session.
\<close>

theorem validation_error_callback_null_witness:
  "\<not> queryPending open_session \<and> \<not> validateInputSQLString sample_collaborators []
   \<and> trace (query sample_collaborators [] (Some user_callback) open_session)
       = [Emit EVENT_ERROR [Err ERROR_INPUT_VALIDATION], Callback [Null]]
   \<and> written (query sample_collaborators [] (Some user_callback) open_session) = []
   \<and> \<not> validateInputTimeout sample_collaborators (- 1)
   \<and> trace (closeQuery sample_collaborators (- 1) (Some user_callback) open_session)
       = [Emit EVENT_ERROR [Err ERROR_INPUT_VALIDATION], Callback [Null]]
   \<and> written (closeQuery sample_collaborators (- 1) (Some user_callback) open_session) = []"
  using validation_error_callback_null [of open_session sample_collaborators "[]" "- 1"]
  by (simp add: open_session_def new_session_def CUBRIDConnection_def sample_collaborators_def)

end
